theory Spec2Isabelle
  imports Main "HOL-Library.Sublist" "HOL-Library.Multiset" "HOL-Library.AList"
    "HOL-Library.Product_Lexorder"
begin

section \<open>JavaScript strings and platform primitives\<close>

text \<open>
  A JavaScript string is modelled as a \<^typ>\<open>string\<close>; all the strings the router inspects
  character by character are ASCII paths. \<open>s.startsWith(p)\<close> is \<^term>\<open>prefix p s\<close>,
  \<open>s.endsWith(p)\<close> is \<^term>\<open>suffix p s\<close>, \<open>s.includes(p)\<close> is \<^term>\<open>sublist p s\<close>,
  \<open>s.slice(n)\<close> is \<^term>\<open>drop n s\<close> and \<open>a || b\<close> on strings picks \<open>b\<close> when \<open>a\<close> is
  empty.
\<close>

definition startsWith :: "string \<Rightarrow> string \<Rightarrow> bool" where
  "startsWith s p = prefix p s"

definition endsWith :: "string \<Rightarrow> string \<Rightarrow> bool" where
  "endsWith s p = suffix p s"

definition str_includes :: "string \<Rightarrow> string \<Rightarrow> bool" where
  "str_includes s p = sublist p s"

definition orElse :: "string \<Rightarrow> string \<Rightarrow> string" where
  "orElse a b = (if a = [] then b else a)"

text \<open>\<open>s.split(c)\<close> for a one-character separator: the pieces between the separators.\<close>

fun split :: "char \<Rightarrow> string \<Rightarrow> string list" where
  "split c [] = [[]]"
| "split c (x # xs) =
     (if x = c then [] # split c xs
      else (case split c xs of [] \<Rightarrow> [[x]] | p # ps \<Rightarrow> (x # p) # ps))"

text \<open>The character class \<open>\w\<close> of a regular expression: letters, digits, underscore.\<close>

definition isWordChar :: "char \<Rightarrow> bool" where
  "isWordChar c =
     (let n = (of_char c :: nat)
      in (48 \<le> n \<and> n \<le> 57) \<or> (65 \<le> n \<and> n \<le> 90) \<or> n = 95 \<or> (97 \<le> n \<and> n \<le> 122))"

datatype js_error = TypeError | SyntaxError

text \<open>
  What \<open>new URL(url, base)\<close> exposes to the router: \<open>pathname\<close>, \<open>search\<close>, \<open>hash\<close> and the
  entries of \<open>searchParams\<close>.
\<close>

record url =
  url_pathname :: string
  url_search :: string
  url_hash :: string
  url_searchParams :: "(string \<times> string) list"

text \<open>\<open>window.location\<close>, where a window exists.\<close>

record window_location =
  href :: string
  origin :: string
  location_hash :: string

text \<open>
  The platform the router runs on. URL parsing and regular expressions are services of the
  JavaScript runtime, not code of the router, so they are parameters of the model:
  \<^item> \<open>window\<close>: \<open>None\<close> where \<open>typeof window === "undefined"\<close> (server side);
  \<^item> \<open>newURL url base\<close>: \<open>new URL(url, base)\<close>, \<open>None\<close> where the constructor throws a
    \<open>TypeError\<close> (invalid URL);
  \<^item> \<open>regexTest src s\<close>: \<open>new RegExp(src).test(s)\<close>, \<open>None\<close> where \<open>src\<close> is not a regular
    expression (\<open>SyntaxError\<close>);
  \<^item> \<open>regexGroups src s\<close>: \<open>s.match(new RegExp(src))?.groups\<close>: \<open>None\<close> for a
    \<open>SyntaxError\<close>, \<open>Some None\<close> where there is no match or no named group, and
    \<open>Some (Some gs)\<close> with the named groups in order otherwise;
  \<^item> \<open>urlSearchParams s\<close>: the entries of \<open>new URLSearchParams(s)\<close>.
\<close>

record platform =
  window :: "window_location option"
  newURL :: "string \<Rightarrow> string \<Rightarrow> url option"
  regexTest :: "string \<Rightarrow> string \<Rightarrow> bool option"
  regexGroups :: "string \<Rightarrow> string \<Rightarrow> (string \<times> string) list option option"
  urlSearchParams :: "string \<Rightarrow> (string \<times> string) list"

section \<open>Route types (router.types.ts)\<close>

datatype query_value = QString string | QArray "string list"

text \<open>
  \<open>params\<close> and \<open>query\<close> are JavaScript objects used as dictionaries; they are association
  lists in insertion order, written with \<^const>\<open>AList.update\<close>. \<open>meta\<close> is
  \<open>Record<string, any>\<close>: the router only copies it, so its type is a parameter.
\<close>

record 'm RouteLocation =
  pathname :: string
  search :: string
  hash :: string
  params :: "(string \<times> string) list"
  query :: "(string \<times> query_value) list"
  meta :: "'m option"
  name :: "string option"

record 'm RouteDefinition =
  path :: string
  route_name :: "string option"
  route_meta :: "'m option"

section \<open>URL helpers (router.dom.ts)\<close>

text \<open>
  The loop of \<open>parseUrl\<close> over \<open>urlObj.searchParams.entries()\<close>. \<open>if (query[key])\<close> tests
  truthiness: a stored empty string is falsy and is overwritten, an array is always truthy.
  (Keys that name members of \<open>Object.prototype\<close> are outside this model.)
\<close>

definition addQuery ::
  "(string \<times> query_value) list \<Rightarrow> string \<times> string \<Rightarrow> (string \<times> query_value) list" where
  "addQuery q kv =
     (case kv of (key, v) \<Rightarrow>
        (case map_of q key of
           Some (QArray vs) \<Rightarrow> AList.update key (QArray (vs @ [v])) q
         | Some (QString s) \<Rightarrow>
             (if s \<noteq> [] then AList.update key (QArray [s, v]) q
              else AList.update key (QString v) q)
         | None \<Rightarrow> AList.update key (QString v) q))"

definition parseUrl :: "platform \<Rightarrow> string \<Rightarrow> string \<Rightarrow> js_error + 'm RouteLocation" where
  "parseUrl pf u basePath =
     (let urlObj =
        (case window pf of
           None \<Rightarrow> newURL pf u ''http://localhost''
         | Some w \<Rightarrow>
             (if startsWith u ''/'' \<or> str_includes u ''://'' then newURL pf u (origin w)
              else newURL pf u (href w)))
      in case urlObj of
           None \<Rightarrow> Inl TypeError
         | Some uo \<Rightarrow>
             (let p0 = url_pathname uo;
                  p = (if basePath \<noteq> ''/'' \<and> startsWith p0 basePath
                       then orElse (drop (length basePath) p0) ''/'' else p0)
              in Inr \<lparr> pathname = p, search = url_search uo, hash = url_hash uo, params = [],
                       query = foldl addQuery [] (url_searchParams uo),
                       meta = None, name = None \<rparr>))"

definition createUrl :: "string \<Rightarrow> string \<Rightarrow> string \<Rightarrow> string \<Rightarrow> string" where
  "createUrl pn sr hs basePath =
     (let fullPath =
        (if basePath \<noteq> [] \<and> basePath \<noteq> ''/''
         then basePath @ (if startsWith pn ''/'' then drop 1 pn else pn)
         else pn)
      in fullPath @ sr @ hs)"

text \<open>
  \<open>pattern.replace(/:(\w+)/g, f)\<close>: every \<open>:\<close> followed by at least one word character is
  replaced, together with the longest run of word characters after it, by \<open>f\<close> of that run.
\<close>

function replaceParams :: "(string \<Rightarrow> string) \<Rightarrow> string \<Rightarrow> string" where
  "replaceParams f [] = []"
| "replaceParams f (c # cs) =
     (if c = CHR '':'' \<and> takeWhile isWordChar cs \<noteq> []
      then f (takeWhile isWordChar cs) @ replaceParams f (dropWhile isWordChar cs)
      else c # replaceParams f cs)"
  by pat_completeness auto
termination
  by (relation "measure (\<lambda>(f, s). length s)")
     (auto simp: length_dropWhile_le less_Suc_eq_le)

definition extractParams :: "platform \<Rightarrow> string \<Rightarrow> string \<Rightarrow> js_error + (string \<times> string) list" where
  "extractParams pf pn pattern =
     (if pattern = ''*'' \<or> pattern = ''/*'' \<or> endsWith pattern ''/*'' then Inr []
      else
        (let regexPattern = replaceParams (\<lambda>paramName. ''(?<'' @ paramName @ ''>[^/]+)'') pattern
         in case regexGroups pf (''^'' @ regexPattern @ ''$'') pn of
              None \<Rightarrow> Inl SyntaxError
            | Some None \<Rightarrow> Inr []
            | Some (Some gs) \<Rightarrow> Inr (foldl (\<lambda>ps (k, v). AList.update k v ps) [] gs)))"

definition matchesPattern :: "platform \<Rightarrow> string \<Rightarrow> string \<Rightarrow> js_error + bool" where
  "matchesPattern pf pn pattern =
     (if pn = pattern then Inr True
      else if pattern = ''*'' \<or> pattern = ''/*'' then Inr True
      else if endsWith pattern ''/*'' then
        (let pre = take (length pattern - 2) pattern
         in Inr (startsWith pn (pre @ ''/'') \<or> pn = pre))
      else
        (let regexPattern = replaceParams (\<lambda>_. ''([^/]+)'') pattern
         in case regexTest pf (''^'' @ regexPattern @ ''$'') pn of
              None \<Rightarrow> Inl SyntaxError
            | Some b \<Rightarrow> Inr b))"

text \<open>
  \<open>Array.prototype.sort\<close> is stable: elements the comparator does not separate keep their
  order. Insertion from the right, placing an element before the first one it does not
  sort after, is such a sort.
\<close>

fun insertBy :: "('a \<Rightarrow> 'a \<Rightarrow> int) \<Rightarrow> 'a \<Rightarrow> 'a list \<Rightarrow> 'a list" where
  "insertBy cmp x [] = [x]"
| "insertBy cmp x (y # ys) = (if cmp x y \<le> 0 then x # y # ys else y # insertBy cmp x ys)"

definition sortBy :: "('a \<Rightarrow> 'a \<Rightarrow> int) \<Rightarrow> 'a list \<Rightarrow> 'a list" where
  "sortBy cmp xs = foldr (insertBy cmp) xs []"

text \<open>The comparator of \<open>findBestMatchingRoute\<close>.\<close>

definition compareRoutes :: "'m RouteDefinition \<Rightarrow> 'm RouteDefinition \<Rightarrow> int" where
  "compareRoutes a b =
     (let aStatic = (\<not> str_includes (path a) '':'' \<and> \<not> str_includes (path a) ''*'');
          bStatic = (\<not> str_includes (path b) '':'' \<and> \<not> str_includes (path b) ''*'')
      in if aStatic \<and> \<not> bStatic then - 1
         else if \<not> aStatic \<and> bStatic then 1
         else
           (let aSegments = int (length (split CHR ''/'' (path a)));
                bSegments = int (length (split CHR ''/'' (path b)))
            in if aSegments \<noteq> bSegments then bSegments - aSegments
               else if str_includes (path a) ''*'' \<and> \<not> str_includes (path b) ''*'' then 1
               else if \<not> str_includes (path a) ''*'' \<and> str_includes (path b) ''*'' then - 1
               else 0))"

definition sortedRoutes :: "'m RouteDefinition list \<Rightarrow> 'm RouteDefinition list" where
  "sortedRoutes routes = sortBy compareRoutes routes"

text \<open>
  \<open>Array.prototype.find\<close> with \<open>matchesPattern\<close> as the test: the first route that matches,
  \<open>None\<close> for \<open>undefined\<close>; a pattern that is tested and is not a regular expression throws.
\<close>

fun findRoute ::
  "platform \<Rightarrow> string \<Rightarrow> 'm RouteDefinition list \<Rightarrow> js_error + 'm RouteDefinition option" where
  "findRoute pf pn [] = Inr None"
| "findRoute pf pn (r # rs) =
     (case matchesPattern pf pn (path r) of
        Inl e \<Rightarrow> Inl e
      | Inr True \<Rightarrow> Inr (Some r)
      | Inr False \<Rightarrow> findRoute pf pn rs)"

definition findBestMatchingRoute ::
  "platform \<Rightarrow> string \<Rightarrow> 'm RouteDefinition list \<Rightarrow> js_error + 'm RouteDefinition option" where
  "findBestMatchingRoute pf pn routes = findRoute pf pn (sortedRoutes routes)"









section \<open>The public operations (router.connect.ts)\<close>

text \<open>
  \<open>Partial<RouteLocation>\<close>: every field may be absent. A navigation target \<open>to\<close> is a URL
  string or such an object.
\<close>

record 'm PartialRouteLocation =
  pl_pathname :: "string option"
  pl_search :: "string option"
  pl_hash :: "string option"
  pl_params :: "(string \<times> string) list option"
  pl_query :: "(string \<times> query_value) list option"
  pl_meta :: "'m option"
  pl_name :: "string option"

datatype 'm nav_target = ToUrl string | ToLocation "'m PartialRouteLocation"

text \<open>\<open>x || d\<close> for an optional string: \<open>d\<close> when \<open>x\<close> is \<open>undefined\<close> or empty.\<close>

definition orDefault :: "string option \<Rightarrow> string \<Rightarrow> string" where
  "orDefault x d = (case x of None \<Rightarrow> d | Some s \<Rightarrow> orElse s d)"

text \<open>
  \<open>typeof to === "string" ? dom.parseUrl(to, prop("basePath")) : to\<close>, as far as the three
  fields go that \<open>isActive\<close> and \<open>createUrl\<close> read.
\<close>

definition resolveTarget ::
  "platform \<Rightarrow> string \<Rightarrow> 'm nav_target \<Rightarrow> js_error + 'm PartialRouteLocation" where
  "resolveTarget pf basePath to =
     (case to of
        ToLocation t \<Rightarrow> Inr t
      | ToUrl u \<Rightarrow>
          (case (parseUrl pf u basePath :: js_error + 'm RouteLocation) of
             Inl e \<Rightarrow> Inl e
           | Inr l \<Rightarrow>
               Inr \<lparr> pl_pathname = Some (pathname l), pl_search = Some (search l),
                     pl_hash = Some (hash l), pl_params = Some (params l),
                     pl_query = Some (query l), pl_meta = meta l, pl_name = name l \<rparr>))"

definition isActive ::
  "platform \<Rightarrow> string \<Rightarrow> 'm RouteLocation \<Rightarrow> 'm nav_target \<Rightarrow> bool \<Rightarrow> js_error + bool" where
  "isActive pf basePath location to exact =
     (case resolveTarget pf basePath to of
        Inl e \<Rightarrow> Inl e
      | Inr target \<Rightarrow>
          (let currentPathname = pathname location
           in if exact then Inr (currentPathname = orDefault (pl_pathname target) ''/'')
              else
                (let targetPathname = orDefault (pl_pathname target) ''/''
                 in Inr (startsWith currentPathname targetPathname))))"

definition connect_createUrl :: "platform \<Rightarrow> string \<Rightarrow> 'm nav_target \<Rightarrow> js_error + string" where
  "connect_createUrl pf basePath to =
     (case resolveTarget pf basePath to of
        Inl e \<Rightarrow> Inl e
      | Inr target \<Rightarrow>
          Inr (createUrl (orDefault (pl_pathname target) ''/'') (orDefault (pl_search target) [])
                 (orDefault (pl_hash target) []) basePath))"

section \<open>Navigation details and props (router.types.ts)\<close>

datatype nav_type = TPush | TReplace | TBack | TForward | TInitial

text \<open>
  \<open>source\<close> is an optional string; the declared union is
  \<open>"programmatic" | "browser" | "user"\<close>, which TypeScript erases at run time.
\<close>

record 'm NavigationDetails =
  nav_from :: "'m RouteLocation option"
  nav_to :: "'m RouteLocation"
  nav_type :: nav_type
  nav_source :: "string option"

text \<open>What \<open>onBeforeNavigate\<close> may return: \<open>void | boolean | string\<close>.\<close>

datatype guard_result = GVoid | GBool bool | GString string

text \<open>
  The props the machine reads. The guard \<open>onBeforeNavigate\<close> is a function of the
  navigation details. The four observers return nothing: a prop says whether the observer
  is configured, and the machine's trace records each call. Callbacks are assumed not to
  throw.
\<close>

record 'm RouterProps =
  basePath :: string
  hashRouting :: bool
  initialLocation :: "'m PartialRouteLocation option"
  routes :: "'m RouteDefinition list option"
  scrollToTop :: bool
  onBeforeNavigate :: "('m NavigationDetails \<Rightarrow> guard_result) option"
  onNavigate :: bool
  onNavigationStart :: bool
  onNavigationEnd :: bool
  onNavigationError :: bool

text \<open>\<open>PrivateContext\<close>.\<close>

record 'm PrivateContext =
  location :: "'m RouteLocation"
  previousLocation :: "'m RouteLocation option"
  navigating :: bool
  pendingNavigation :: "'m NavigationDetails option"
  initialized :: bool
  historyStack :: "'m RouteLocation list"
  historyIndex :: nat

section \<open>The machine (router.machine.ts)\<close>

datatype machine_state = Initializing | Idle | Navigating | Error

datatype event_type =
  NAVIGATE | PUSH | REPLACE | BACK | FORWARD | POP_STATE | HASH_CHANGE | INITIALIZE
  | NAVIGATION_COMPLETE | NAVIGATION_ERROR

text \<open>
  An event: its type and the payload fields the machine reads (\<open>error\<close> is the message of
  the \<open>Error\<close> object). The \<open>state\<close> payload is never read and is left out.
\<close>

record event =
  ev_type :: event_type
  ev_pathname :: "string option"
  ev_search :: "string option"
  ev_hash :: "string option"
  ev_url :: "string option"
  ev_error :: "string option"

definition plainEvent :: "event_type \<Rightarrow> event" where
  "plainEvent t = \<lparr> ev_type = t, ev_pathname = None, ev_search = None, ev_hash = None,
     ev_url = None, ev_error = None \<rparr>"

text \<open>
  The events the public operations send (router.connect.ts): \<open>navigate\<close>, and through it
  \<open>push\<close> and \<open>replace\<close>, send \<open>NAVIGATE\<close> or \<open>REPLACE\<close> with the three parts of the
  target; \<open>back\<close> and \<open>forward\<close> send \<open>BACK\<close> and \<open>FORWARD\<close>.
\<close>

definition navigate :: "platform \<Rightarrow> string \<Rightarrow> 'm nav_target \<Rightarrow> bool \<Rightarrow> js_error + event" where
  "navigate pf bp to replace =
     (case resolveTarget pf bp to of
        Inl e \<Rightarrow> Inl e
      | Inr target \<Rightarrow>
          Inr \<lparr> ev_type = (if replace then REPLACE else NAVIGATE),
                ev_pathname = Some (orDefault (pl_pathname target) ''/''),
                ev_search = Some (orDefault (pl_search target) []),
                ev_hash = Some (orDefault (pl_hash target) []),
                ev_url = None, ev_error = None \<rparr>)"

definition backEvent :: event where
  "backEvent = plainEvent BACK"

definition forwardEvent :: event where
  "forwardEvent = plainEvent FORWARD"

text \<open>
  What the machine does to the outside, in order: calls of the guard and of the observers,
  and writes to the platform (\<open>window.history\<close>, \<open>window.location.hash\<close>,
  \<open>window.scrollTo\<close>).
\<close>

datatype 'm effect =
  BeforeNavigateCall "'m NavigationDetails"
  | NavigationStartCall "'m NavigationDetails"
  | NavigationEndCall "'m NavigationDetails"
  | NavigateCall "'m NavigationDetails"
  | NavigationErrorCall string "'m NavigationDetails"
  | HistoryWrite string string
  | HashWrite string
  | ScrollTo nat nat

text \<open>
  Deferred work: \<open>send\<close> queues an event as a microtask; \<open>setTimeout(f, 0)\<close> queues a
  timer, which runs once no microtask is left. The timers of the machine either send an
  event or run the body of \<open>invokeBeforeNavigateForInitial\<close>.
\<close>

datatype task = Send event | InitialGuard

record 'm machine =
  state :: machine_state
  ctx :: "'m PrivateContext"
  trace :: "'m effect list"
  microtasks :: "task list"
  timers :: "task list"

definition andThen :: "'e + 'a \<Rightarrow> ('a \<Rightarrow> 'e + 'b) \<Rightarrow> 'e + 'b" where
  "andThen r f = (case r of Inl e \<Rightarrow> Inl e | Inr x \<Rightarrow> f x)"

definition send :: "event \<Rightarrow> 'm machine \<Rightarrow> 'm machine" where
  "send ev m = m\<lparr> microtasks := microtasks m @ [Send ev] \<rparr>"

definition setTimeout :: "task \<Rightarrow> 'm machine \<Rightarrow> 'm machine" where
  "setTimeout t m = m\<lparr> timers := timers m @ [t] \<rparr>"

definition emit :: "'m effect \<Rightarrow> 'm machine \<Rightarrow> 'm machine" where
  "emit x m = m\<lparr> trace := trace m @ [x] \<rparr>"

definition setContext :: "('m PrivateContext \<Rightarrow> 'm PrivateContext) \<Rightarrow> 'm machine \<Rightarrow> 'm machine" where
  "setContext f m = m\<lparr> ctx := f (ctx m) \<rparr>"

subsection \<open>Helper functions\<close>

definition emptyLocation :: "string \<Rightarrow> 'm RouteLocation" where
  "emptyLocation p = \<lparr> pathname = p, search = [], hash = [], params = [], query = [],
     meta = None, name = None \<rparr>"

definition getInitialLocation ::
  "platform \<Rightarrow> 'm PartialRouteLocation option \<Rightarrow> string \<Rightarrow> bool \<Rightarrow> js_error + 'm RouteLocation" where
  "getInitialLocation pf initLoc bp hr =
     (case initLoc of
        Some i \<Rightarrow>
          Inr \<lparr> pathname = (case pl_pathname i of None \<Rightarrow> ''/'' | Some p \<Rightarrow> p),
                search = (case pl_search i of None \<Rightarrow> [] | Some s \<Rightarrow> s),
                hash = (case pl_hash i of None \<Rightarrow> [] | Some h \<Rightarrow> h),
                params = (case pl_params i of None \<Rightarrow> [] | Some ps \<Rightarrow> ps),
                query = (case pl_query i of None \<Rightarrow> [] | Some q \<Rightarrow> q),
                meta = pl_meta i, name = pl_name i \<rparr>
      | None \<Rightarrow>
          (case window pf of
             None \<Rightarrow> Inr (emptyLocation ''/'')
           | Some w \<Rightarrow> parseUrl pf (href w) bp))"

text \<open>\<open>Object.fromEntries\<close>: a later entry with the same key overwrites an earlier one.\<close>

definition fromEntries :: "(string \<times> string) list \<Rightarrow> (string \<times> query_value) list" where
  "fromEntries es = foldl (\<lambda>q (k, v). AList.update k (QString v) q) [] es"

definition createNavigationTarget ::
  "platform \<Rightarrow> 'm RouterProps \<Rightarrow> event \<Rightarrow> 'm RouteLocation \<Rightarrow> js_error + 'm RouteLocation" where
  "createNavigationTarget pf props ev currentLocation =
     (case ev_pathname ev of
        Some p \<Rightarrow>
          Inr \<lparr> pathname = orElse p ''/'', search = orDefault (ev_search ev) [],
                hash = orDefault (ev_hash ev) [], params = [],
                query = (if orDefault (ev_search ev) [] \<noteq> []
                         then fromEntries (urlSearchParams pf (orDefault (ev_search ev) []))
                         else []),
                meta = None, name = None \<rparr>
      | None \<Rightarrow>
          (if orDefault (ev_url ev) [] \<noteq> [] then parseUrl pf (orDefault (ev_url ev) []) (basePath props)
           else Inr currentLocation))"

definition getNavigationType :: "event \<Rightarrow> nav_type" where
  "getNavigationType ev =
     (case ev_type ev of
        PUSH \<Rightarrow> TPush
      | REPLACE \<Rightarrow> TReplace
      | BACK \<Rightarrow> TBack
      | FORWARD \<Rightarrow> TForward
      | POP_STATE \<Rightarrow> TBack
      | HASH_CHANGE \<Rightarrow> TPush
      | INITIALIZE \<Rightarrow> TInitial
      | _ \<Rightarrow> TPush)"

definition findRouteByLocation ::
  "platform \<Rightarrow> 'm RouteLocation \<Rightarrow> 'm RouteDefinition list \<Rightarrow> js_error + 'm RouteDefinition option" where
  "findRouteByLocation pf loc rs = findBestMatchingRoute pf (pathname loc) rs"

definition enrichLocationWithMeta ::
  "platform \<Rightarrow> 'm RouteLocation \<Rightarrow> 'm RouteDefinition list option \<Rightarrow> js_error + 'm RouteLocation" where
  "enrichLocationWithMeta pf loc rso =
     (case rso of
        None \<Rightarrow> Inr loc
      | Some rs \<Rightarrow>
          andThen (findRouteByLocation pf loc rs) (\<lambda>matchedRoute.
            case matchedRoute of
              None \<Rightarrow> Inr loc
            | Some r \<Rightarrow> Inr (loc\<lparr> meta := route_meta r, name := route_name r \<rparr>)))"

definition createNavigationDetailsWithMeta ::
  "platform \<Rightarrow> 'm RouteLocation option \<Rightarrow> 'm RouteLocation \<Rightarrow> nav_type \<Rightarrow> string
     \<Rightarrow> 'm RouteDefinition list option \<Rightarrow> js_error + 'm NavigationDetails" where
  "createNavigationDetailsWithMeta pf frm to ty src rso =
     andThen (case frm of None \<Rightarrow> Inr None
              | Some f \<Rightarrow> andThen (enrichLocationWithMeta pf f rso) (\<lambda>f'. Inr (Some f'))) (\<lambda>frm'.
     andThen (enrichLocationWithMeta pf to rso) (\<lambda>to'.
       Inr \<lparr> nav_from = frm', nav_to = to', nav_type = ty, nav_source = Some src \<rparr>))"

text \<open>
  The step shared by \<open>initializeLocation\<close>, \<open>initializeWithGuards\<close> and \<open>updateLocation\<close>:
  with a route list and a matching route, \<open>location.params\<close> is overwritten.
\<close>

definition withParams ::
  "platform \<Rightarrow> 'm RouteLocation \<Rightarrow> 'm RouteDefinition list option \<Rightarrow> js_error + 'm RouteLocation" where
  "withParams pf loc rso =
     (case rso of
        None \<Rightarrow> Inr loc
      | Some rs \<Rightarrow>
          andThen (findRouteByLocation pf loc rs) (\<lambda>matchedRoute.
            case matchedRoute of
              None \<Rightarrow> Inr loc
            | Some r \<Rightarrow>
                andThen (extractParams pf (pathname loc) (path r)) (\<lambda>ps.
                  Inr (loc\<lparr> params := ps \<rparr>))))"

subsection \<open>Guards and computed values\<close>

definition canGoBack :: "'m PrivateContext \<Rightarrow> bool" where
  "canGoBack c = (historyIndex c > 0)"

definition canGoForward :: "'m PrivateContext \<Rightarrow> bool" where
  "canGoForward c = (int (historyIndex c) < int (length (historyStack c)) - 1)"

subsection \<open>Actions\<close>

text \<open>
  An action receives the platform, the props, the event being handled and the machine, and
  returns the machine it leaves behind, or the exception that escapes from it (the model
  does not follow the machine past an uncaught exception).
\<close>

definition initializeWithGuards ::
  "platform \<Rightarrow> 'm RouterProps \<Rightarrow> event \<Rightarrow> 'm machine \<Rightarrow> js_error + 'm machine" where
  "initializeWithGuards pf props ev m =
     (let currentUrl = (case window pf of Some w \<Rightarrow> href w | None \<Rightarrow> ''/'')
      in andThen (parseUrl pf currentUrl (basePath props)) (\<lambda>loc0.
         andThen (withParams pf loc0 (routes props)) (\<lambda>loc.
         andThen (createNavigationDetailsWithMeta pf None loc TInitial ''browser'' (routes props))
           (\<lambda>navigationDetails.
              Inr (setContext (\<lambda>c. c\<lparr> pendingNavigation := Some navigationDetails,
                                       initialized := True \<rparr>) m)))))"

definition setNavigating ::
  "platform \<Rightarrow> 'm RouterProps \<Rightarrow> event \<Rightarrow> 'm machine \<Rightarrow> js_error + 'm machine" where
  "setNavigating pf props ev m =
     (let m1 = setContext (\<lambda>c. c\<lparr> navigating := True \<rparr>) m
      in andThen (createNavigationTarget pf props ev (location (ctx m1))) (\<lambda>to.
         andThen (createNavigationDetailsWithMeta pf (Some (location (ctx m1))) to
                    (getNavigationType ev) ''programmatic'' (routes props))
           (\<lambda>navigationDetails.
              Inr (setContext (\<lambda>c. c\<lparr> pendingNavigation := Some navigationDetails \<rparr>) m1))))"

definition clearNavigating ::
  "platform \<Rightarrow> 'm RouterProps \<Rightarrow> event \<Rightarrow> 'm machine \<Rightarrow> js_error + 'm machine" where
  "clearNavigating pf props ev m =
     Inr (setContext (\<lambda>c. c\<lparr> navigating := False, pendingNavigation := None \<rparr>) m)"

text \<open>
  \<open>updateLocation\<close> assigns \<open>newLocation.params\<close> on the object \<open>pendingNav.to\<close> itself, so
  the pending navigation sees the new params too.
\<close>

definition updateLocation ::
  "platform \<Rightarrow> 'm RouterProps \<Rightarrow> event \<Rightarrow> 'm machine \<Rightarrow> js_error + 'm machine" where
  "updateLocation pf props ev m =
     (case pendingNavigation (ctx m) of
        None \<Rightarrow> Inr m
      | Some pendingNav \<Rightarrow>
          andThen (enrichLocationWithMeta pf (location (ctx m)) (routes props))
            (\<lambda>enrichedCurrentLocation.
          andThen (withParams pf (nav_to pendingNav) (routes props)) (\<lambda>newLocation.
          andThen (enrichLocationWithMeta pf newLocation (routes props))
            (\<lambda>enrichedNewLocation.
               Inr (setContext (\<lambda>c. c\<lparr> previousLocation := Some enrichedCurrentLocation,
                        pendingNavigation := Some (pendingNav\<lparr> nav_to := newLocation \<rparr>),
                        location := enrichedNewLocation \<rparr>) m)))))"

text \<open>
  \<open>stack.slice(0, index + 1)\<close> is \<^term>\<open>take (index + 1) stack\<close>. The assignment
  \<open>replacedStack[index] = to\<close> is a list update; the two agree while \<open>index\<close> is inside
  the stack (beyond it JavaScript would grow the array, which no reachable machine does:
  see \<open>start_inv\<close> and \<open>run_inv\<close> below).
\<close>

definition updateHistory ::
  "platform \<Rightarrow> 'm RouterProps \<Rightarrow> event \<Rightarrow> 'm machine \<Rightarrow> js_error + 'm machine" where
  "updateHistory pf props ev m =
     (case pendingNavigation (ctx m) of
        None \<Rightarrow> Inr m
      | Some pendingNav \<Rightarrow>
          (let to = nav_to pendingNav;
               stack = historyStack (ctx m);
               index = historyIndex (ctx m)
           in case nav_type pendingNav of
                TPush \<Rightarrow>
                  (let newStack = take (index + 1) stack @ [to]
                   in Inr (setContext (\<lambda>c. c\<lparr> historyStack := newStack,
                                              historyIndex := length newStack - 1 \<rparr>) m))
              | TReplace \<Rightarrow>
                  (let replacedStack = stack[index := to]
                   in Inr (setContext (\<lambda>c. c\<lparr> historyStack := replacedStack \<rparr>) m))
              | TBack \<Rightarrow> Inr m
              | TForward \<Rightarrow> Inr m
              | TInitial \<Rightarrow> Inr m))"

text \<open>
  \<open>goBack\<close> reads \<open>historyStack[index - 1]\<close>. Past the end of the array that is
  \<open>undefined\<close>, whose fields cannot be read: the model reports the \<open>TypeError\<close> at once.
\<close>

definition goBack ::
  "platform \<Rightarrow> 'm RouterProps \<Rightarrow> event \<Rightarrow> 'm machine \<Rightarrow> js_error + 'm machine" where
  "goBack pf props ev m =
     (let index = historyIndex (ctx m)
      in if index > 0 then
           (let m1 = setContext (\<lambda>c. c\<lparr> historyIndex := index - 1 \<rparr>) m
            in if index - 1 < length (historyStack (ctx m1)) then
                 andThen (createNavigationDetailsWithMeta pf (Some (location (ctx m1)))
                            (historyStack (ctx m1) ! (index - 1)) TBack ''programmatic''
                            (routes props))
                   (\<lambda>navigationDetails.
                      Inr (setContext (\<lambda>c. c\<lparr> pendingNavigation := Some navigationDetails \<rparr>) m1))
               else Inl TypeError)
         else Inr m)"

definition goForward ::
  "platform \<Rightarrow> 'm RouterProps \<Rightarrow> event \<Rightarrow> 'm machine \<Rightarrow> js_error + 'm machine" where
  "goForward pf props ev m =
     (let index = historyIndex (ctx m);
          stack = historyStack (ctx m)
      in if int index < int (length stack) - 1 then
           (let m1 = setContext (\<lambda>c. c\<lparr> historyIndex := index + 1 \<rparr>) m
            in andThen (createNavigationDetailsWithMeta pf (Some (location (ctx m1)))
                          (stack ! (index + 1)) TForward ''programmatic'' (routes props))
                 (\<lambda>navigationDetails.
                    Inr (setContext (\<lambda>c. c\<lparr> pendingNavigation := Some navigationDetails \<rparr>) m1)))
         else Inr m)"

definition handlePopState ::
  "platform \<Rightarrow> 'm RouterProps \<Rightarrow> event \<Rightarrow> 'm machine \<Rightarrow> js_error + 'm machine" where
  "handlePopState pf props ev m =
     (let currentUrl = (case window pf of Some w \<Rightarrow> href w | None \<Rightarrow> ''/'')
      in andThen (parseUrl pf currentUrl (basePath props)) (\<lambda>loc.
         andThen (createNavigationDetailsWithMeta pf (Some (location (ctx m))) loc TBack
                    ''browser'' (routes props))
           (\<lambda>navigationDetails.
              Inr (setTimeout (Send (plainEvent NAVIGATION_COMPLETE))
                     (setContext (\<lambda>c. c\<lparr> pendingNavigation := Some navigationDetails \<rparr>) m)))))"

definition handleHashChange ::
  "platform \<Rightarrow> 'm RouterProps \<Rightarrow> event \<Rightarrow> 'm machine \<Rightarrow> js_error + 'm machine" where
  "handleHashChange pf props ev m =
     (if \<not> hashRouting props then Inr m
      else
        (let h = (case window pf of Some w \<Rightarrow> location_hash w | None \<Rightarrow> []);
             pn = orElse (drop 1 h) ''/'';
             loc = (location (ctx m))\<lparr> pathname := pn \<rparr>
         in andThen (createNavigationDetailsWithMeta pf (Some (location (ctx m))) loc TPush
                       ''browser'' (routes props))
              (\<lambda>navigationDetails.
                 Inr (setTimeout (Send (plainEvent NAVIGATION_COMPLETE))
                        (setContext (\<lambda>c. c\<lparr> pendingNavigation := Some navigationDetails \<rparr>) m)))))"

definition invokeNavigationStart ::
  "platform \<Rightarrow> 'm RouterProps \<Rightarrow> event \<Rightarrow> 'm machine \<Rightarrow> js_error + 'm machine" where
  "invokeNavigationStart pf props ev m =
     (case pendingNavigation (ctx m) of
        Some pendingNav \<Rightarrow>
          if onNavigationStart props then Inr (emit (NavigationStartCall pendingNav) m) else Inr m
      | None \<Rightarrow> Inr m)"

definition invokeNavigationEnd ::
  "platform \<Rightarrow> 'm RouterProps \<Rightarrow> event \<Rightarrow> 'm machine \<Rightarrow> js_error + 'm machine" where
  "invokeNavigationEnd pf props ev m =
     (case pendingNavigation (ctx m) of
        Some pendingNav \<Rightarrow>
          if onNavigationEnd props then Inr (emit (NavigationEndCall pendingNav) m) else Inr m
      | None \<Rightarrow> Inr m)"

definition errorDetails :: "'m NavigationDetails" where
  "errorDetails = \<lparr> nav_from = None, nav_to = emptyLocation [], nav_type = TPush,
     nav_source = Some ''programmatic'' \<rparr>"

definition invokeNavigationError ::
  "platform \<Rightarrow> 'm RouterProps \<Rightarrow> event \<Rightarrow> 'm machine \<Rightarrow> js_error + 'm machine" where
  "invokeNavigationError pf props ev m =
     (case ev_error ev of
        Some err \<Rightarrow>
          if onNavigationError props
          then (let navigationDetails = errorDetails
                in Inr (emit (NavigationErrorCall err navigationDetails) m))
          else Inr m
      | None \<Rightarrow> Inr m)"

definition invokeBeforeNavigate ::
  "platform \<Rightarrow> 'm RouterProps \<Rightarrow> event \<Rightarrow> 'm machine \<Rightarrow> js_error + 'm machine" where
  "invokeBeforeNavigate pf props ev m =
     (case (onBeforeNavigate props, pendingNavigation (ctx m)) of
        (Some guard, Some pendingNav) \<Rightarrow>
          (let m1 = emit (BeforeNavigateCall pendingNav) m;
               result = guard pendingNav
           in if result = GBool False then
                Inr (send ((plainEvent NAVIGATION_ERROR)\<lparr> ev_error := Some ''Navigation prevented'' \<rparr>) m1)
              else
                (case result of
                   GString s \<Rightarrow>
                     andThen (parseUrl pf s (basePath props)) (\<lambda>redirectLocation.
                     andThen (enrichLocationWithMeta pf redirectLocation (routes props))
                       (\<lambda>enrichedLocation.
                     andThen (createNavigationDetailsWithMeta pf (Some (location (ctx m1)))
                                enrichedLocation TReplace ''programmatic'' (routes props))
                       (\<lambda>redirectDetails.
                          Inr (send (plainEvent NAVIGATION_COMPLETE)
                                 (setContext (\<lambda>c. c\<lparr> pendingNavigation := Some redirectDetails \<rparr>)
                                    m1)))))
                 | _ \<Rightarrow> Inr (send (plainEvent NAVIGATION_COMPLETE) m1)))
      | _ \<Rightarrow> Inr (send (plainEvent NAVIGATION_COMPLETE) m))"

definition invokeOnNavigate ::
  "platform \<Rightarrow> 'm RouterProps \<Rightarrow> event \<Rightarrow> 'm machine \<Rightarrow> js_error + 'm machine" where
  "invokeOnNavigate pf props ev m =
     (case pendingNavigation (ctx m) of
        Some pendingNav \<Rightarrow>
          if onNavigate props then Inr (emit (NavigateCall pendingNav) m) else Inr m
      | None \<Rightarrow> Inr m)"

text \<open>
  \<open>invokeBeforeNavigateForInitial\<close> only sets a timer; \<open>initialGuard\<close> is the body that
  runs when the timer fires.
\<close>

definition invokeBeforeNavigateForInitial ::
  "platform \<Rightarrow> 'm RouterProps \<Rightarrow> event \<Rightarrow> 'm machine \<Rightarrow> js_error + 'm machine" where
  "invokeBeforeNavigateForInitial pf props ev m = Inr (setTimeout InitialGuard m)"

definition initialGuard ::
  "platform \<Rightarrow> 'm RouterProps \<Rightarrow> 'm machine \<Rightarrow> js_error + 'm machine" where
  "initialGuard pf props m =
     (case (onBeforeNavigate props, pendingNavigation (ctx m)) of
        (Some guard, Some pendingNav) \<Rightarrow>
          (let m1 = emit (BeforeNavigateCall pendingNav) m;
               result = guard pendingNav
           in if result = GBool False then
                andThen (parseUrl pf ''/'' (basePath props)) (\<lambda>fallbackLocation.
                andThen (enrichLocationWithMeta pf fallbackLocation (routes props))
                  (\<lambda>enrichedFallback.
                andThen (createNavigationDetailsWithMeta pf None enrichedFallback TReplace
                           ''programmatic'' (routes props))
                  (\<lambda>fallbackDetails.
                     Inr (send (plainEvent NAVIGATION_COMPLETE)
                            (setContext (\<lambda>c. c\<lparr> pendingNavigation := Some fallbackDetails \<rparr>)
                               m1)))))
              else
                (case result of
                   GString s \<Rightarrow>
                     andThen (parseUrl pf s (basePath props)) (\<lambda>redirectLocation.
                     andThen (enrichLocationWithMeta pf redirectLocation (routes props))
                       (\<lambda>enrichedLocation.
                     andThen (createNavigationDetailsWithMeta pf None enrichedLocation TReplace
                                ''programmatic'' (routes props))
                       (\<lambda>redirectDetails.
                          Inr (send (plainEvent NAVIGATION_COMPLETE)
                                 (setContext (\<lambda>c. c\<lparr> pendingNavigation := Some redirectDetails \<rparr>)
                                    m1)))))
                 | _ \<Rightarrow> Inr (send (plainEvent NAVIGATION_COMPLETE) m1)))
      | _ \<Rightarrow> Inr (send (plainEvent NAVIGATION_COMPLETE) m))"

definition updateBrowserHistory ::
  "platform \<Rightarrow> 'm RouterProps \<Rightarrow> event \<Rightarrow> 'm machine \<Rightarrow> js_error + 'm machine" where
  "updateBrowserHistory pf props ev m =
     (if window pf = None then Inr m
      else
        (let pendingNav = pendingNavigation (ctx m);
             loc = (case pendingNav of Some p \<Rightarrow> nav_to p | None \<Rightarrow> location (ctx m));
             u = createUrl (pathname loc) (search loc) (hash loc) (basePath props)
         in if hashRouting props then Inr (emit (HashWrite (pathname loc @ search loc)) m)
            else
              (let shouldSkipUpdate =
                     (case pendingNav of
                        Some p \<Rightarrow> nav_source p = Some ''browser''
                                   \<and> (nav_type p = TBack \<or> nav_type p = TForward)
                      | None \<Rightarrow> False)
               in if \<not> shouldSkipUpdate then
                    (let method =
                           (case pendingNav of
                              Some p \<Rightarrow>
                                (if nav_type p = TReplace then ''replaceState''
                                 else if nav_type p = TBack \<or> nav_type p = TForward
                                 then ''replaceState'' else ''pushState'')
                            | None \<Rightarrow> ''pushState'')
                     in Inr (emit (HistoryWrite method u) m))
                  else Inr m)))"

definition scrollToTopEffect ::
  "platform \<Rightarrow> 'm RouterProps \<Rightarrow> event \<Rightarrow> 'm machine \<Rightarrow> js_error + 'm machine" where
  "scrollToTopEffect pf props ev m =
     (if scrollToTop props \<and> window pf \<noteq> None then Inr (emit (ScrollTo 0 0) m) else Inr m)"

subsection \<open>The machine configuration\<close>

text \<open>
  The \<open>states\<close> of \<open>createMachine\<close>: the actions and guards it names, the entry actions of
  each state and, for each state and event type, the transitions (guard, target, actions).
  \<open>startNavigation\<close> stands for the transitions into \<open>navigating\<close>, which all begin with
  \<open>setNavigating\<close> and \<open>invokeNavigationStart\<close>.
\<close>

datatype action =
  InitializeWithGuards | SetNavigating | ClearNavigating | UpdateLocation | UpdateHistory
  | GoBack | GoForward | HandlePopState | HandleHashChange | InvokeNavigationStart
  | InvokeNavigationEnd | InvokeNavigationError | InvokeBeforeNavigate | InvokeOnNavigate
  | InvokeBeforeNavigateForInitial | UpdateBrowserHistory | ScrollToTopEffect

datatype guard = CanGoBack | CanGoForward | IsHashRouting

record transition =
  t_guard :: "guard option"
  t_target :: "machine_state option"
  t_actions :: "action list"

definition startNavigation :: "guard option \<Rightarrow> action list \<Rightarrow> transition" where
  "startNavigation g extra = \<lparr> t_guard = g, t_target = Some Navigating,
     t_actions = [SetNavigating, InvokeNavigationStart] @ extra \<rparr>"

definition rootEntry :: "action list" where
  "rootEntry = [InitializeWithGuards]"

fun entry :: "machine_state \<Rightarrow> action list" where
  "entry Initializing = [InvokeBeforeNavigateForInitial]"
| "entry Navigating = [InvokeBeforeNavigate]"
| "entry Idle = []"
| "entry Error = []"

fun on :: "machine_state \<Rightarrow> event_type \<Rightarrow> transition list" where
  "on Initializing NAVIGATION_COMPLETE =
     [\<lparr> t_guard = None, t_target = Some Idle,
        t_actions = [UpdateLocation, UpdateHistory, InvokeNavigationEnd, InvokeOnNavigate,
                     ClearNavigating] \<rparr>]"
| "on Initializing NAVIGATION_ERROR =
     [\<lparr> t_guard = None, t_target = Some Error,
        t_actions = [ClearNavigating, InvokeNavigationError] \<rparr>]"
| "on Idle NAVIGATE = [startNavigation None []]"
| "on Idle PUSH = [startNavigation None []]"
| "on Idle REPLACE = [startNavigation None []]"
| "on Idle BACK = [startNavigation (Some CanGoBack) [GoBack]]"
| "on Idle FORWARD = [startNavigation (Some CanGoForward) [GoForward]]"
| "on Idle POP_STATE = [startNavigation None [HandlePopState]]"
| "on Idle HASH_CHANGE = [startNavigation (Some IsHashRouting) [HandleHashChange]]"
| "on Navigating NAVIGATION_COMPLETE =
     [\<lparr> t_guard = None, t_target = Some Idle,
        t_actions = [UpdateLocation, UpdateHistory, UpdateBrowserHistory, ScrollToTopEffect,
                     InvokeNavigationEnd, InvokeOnNavigate, ClearNavigating] \<rparr>]"
| "on Navigating NAVIGATION_ERROR =
     [\<lparr> t_guard = None, t_target = Some Error,
        t_actions = [ClearNavigating, InvokeNavigationError] \<rparr>]"
| "on Navigating NAVIGATE =
     [\<lparr> t_guard = None, t_target = None,
        t_actions = [SetNavigating, InvokeNavigationStart] \<rparr>]"
| "on Error NAVIGATE = [startNavigation None []]"
| "on Error PUSH = [startNavigation None []]"
| "on Error REPLACE = [startNavigation None []]"
| "on Error BACK = [startNavigation (Some CanGoBack) [GoBack]]"
| "on Error FORWARD = [startNavigation (Some CanGoForward) [GoForward]]"
| "on _ _ = []"

subsection \<open>Running the machine\<close>

text \<open>
  The configuration is run by the state-machine library (\<open>@zag-js/core\<close>), which is not code
  of the router. The rules it follows are written out here: actions run in the order
  listed; of the transitions of an event the first whose guard holds is taken; the
  actions of a transition run before the entry actions of the state it enters.
\<close>

definition runAction ::
  "action \<Rightarrow> platform \<Rightarrow> 'm RouterProps \<Rightarrow> event \<Rightarrow> 'm machine \<Rightarrow> js_error + 'm machine" where
  "runAction a =
     (case a of
        InitializeWithGuards \<Rightarrow> initializeWithGuards
      | SetNavigating \<Rightarrow> setNavigating
      | ClearNavigating \<Rightarrow> clearNavigating
      | UpdateLocation \<Rightarrow> updateLocation
      | UpdateHistory \<Rightarrow> updateHistory
      | GoBack \<Rightarrow> goBack
      | GoForward \<Rightarrow> goForward
      | HandlePopState \<Rightarrow> handlePopState
      | HandleHashChange \<Rightarrow> handleHashChange
      | InvokeNavigationStart \<Rightarrow> invokeNavigationStart
      | InvokeNavigationEnd \<Rightarrow> invokeNavigationEnd
      | InvokeNavigationError \<Rightarrow> invokeNavigationError
      | InvokeBeforeNavigate \<Rightarrow> invokeBeforeNavigate
      | InvokeOnNavigate \<Rightarrow> invokeOnNavigate
      | InvokeBeforeNavigateForInitial \<Rightarrow> invokeBeforeNavigateForInitial
      | UpdateBrowserHistory \<Rightarrow> updateBrowserHistory
      | ScrollToTopEffect \<Rightarrow> scrollToTopEffect)"

fun runActions ::
  "action list \<Rightarrow> platform \<Rightarrow> 'm RouterProps \<Rightarrow> event \<Rightarrow> 'm machine \<Rightarrow> js_error + 'm machine" where
  "runActions [] pf props ev m = Inr m"
| "runActions (a # as) pf props ev m =
     andThen (runAction a pf props ev m) (runActions as pf props ev)"

definition checkGuard :: "guard \<Rightarrow> 'm RouterProps \<Rightarrow> 'm PrivateContext \<Rightarrow> bool" where
  "checkGuard g props c =
     (case g of
        CanGoBack \<Rightarrow> historyIndex c > 0
      | CanGoForward \<Rightarrow> int (historyIndex c) < int (length (historyStack c)) - 1
      | IsHashRouting \<Rightarrow> hashRouting props)"

text \<open>The first transition whose guard holds.\<close>

fun chooseTransition :: "transition list \<Rightarrow> 'm RouterProps \<Rightarrow> 'm PrivateContext \<Rightarrow> transition option" where
  "chooseTransition [] props c = None"
| "chooseTransition (t # ts) props c =
     (case t_guard t of
        None \<Rightarrow> Some t
      | Some g \<Rightarrow> if checkGuard g props c then Some t else chooseTransition ts props c)"

text \<open>
  Handling one event: without a transition the event is dropped. Otherwise the machine
  takes the target state, runs the actions of the transition and, when the state has
  changed, the entry actions of the new state.
\<close>

definition transition ::
  "platform \<Rightarrow> 'm RouterProps \<Rightarrow> event \<Rightarrow> 'm machine \<Rightarrow> js_error + 'm machine" where
  "transition pf props ev m =
     (case chooseTransition (on (state m) (ev_type ev)) props (ctx m) of
        None \<Rightarrow> Inr m
      | Some t \<Rightarrow>
          (let target = (case t_target t of None \<Rightarrow> state m | Some s \<Rightarrow> s);
               changed = (target \<noteq> state m)
           in andThen (runActions (t_actions t) pf props ev (m\<lparr> state := target \<rparr>)) (\<lambda>m1.
                if changed then runActions (entry target) pf props ev m1 else Inr m1)))"

definition perform ::
  "platform \<Rightarrow> 'm RouterProps \<Rightarrow> task \<Rightarrow> 'm machine \<Rightarrow> js_error + 'm machine" where
  "perform pf props t m =
     (case t of Send ev \<Rightarrow> transition pf props ev m | InitialGuard \<Rightarrow> initialGuard pf props m)"

text \<open>
  Machine construction: the context of \<open>context()\<close>, the state \<open>initializing\<close>, then the
  entry actions of the machine and of the initial state. None of them reads the event.
\<close>

definition initialContext :: "'m RouteLocation \<Rightarrow> 'm PrivateContext" where
  "initialContext initLoc = \<lparr> location = initLoc, previousLocation = None, navigating = False,
     pendingNavigation = None, initialized = False, historyStack = [initLoc],
     historyIndex = 0 \<rparr>"

definition start :: "platform \<Rightarrow> 'm RouterProps \<Rightarrow> js_error + 'm machine" where
  "start pf props =
     andThen (getInitialLocation pf (initialLocation props) (basePath props) (hashRouting props))
       (\<lambda>initLoc.
          runActions (rootEntry @ entry Initializing) pf props (plainEvent INITIALIZE)
            \<lparr> state = Initializing, ctx = initialContext initLoc, trace = [],
              microtasks = [], timers = [] \<rparr>)"

text \<open>The next task: microtasks first, then timers.\<close>

definition nextTask :: "'m machine \<Rightarrow> (task \<times> 'm machine) option" where
  "nextTask m =
     (case microtasks m of
        t # ts \<Rightarrow> Some (t, m\<lparr> microtasks := ts \<rparr>)
      | [] \<Rightarrow>
          (case timers m of
             t # ts \<Rightarrow> Some (t, m\<lparr> timers := ts \<rparr>)
           | [] \<Rightarrow> None))"

subsection \<open>The event loop\<close>

text \<open>
  The event loop ends: an event from outside queues at most the completion or error event
  of its guard and one completion timer, the initial guard queues one completion event,
  and these two events queue nothing. \<open>pendingWork\<close> weighs the queued tasks accordingly
  and decreases with every task performed.
\<close>

definition internal :: "event \<Rightarrow> bool" where
  "internal ev = (ev_type ev = NAVIGATION_COMPLETE \<or> ev_type ev = NAVIGATION_ERROR)"

definition taskWeight :: "task \<Rightarrow> nat" where
  "taskWeight t = (case t of Send ev \<Rightarrow> if internal ev then 1 else 4 | InitialGuard \<Rightarrow> 2)"

definition pendingWork :: "'m machine \<Rightarrow> nat" where
  "pendingWork m = sum_list (map taskWeight (microtasks m)) + sum_list (map taskWeight (timers m))"

lemma andThen_Inr_iff: "andThen r f = Inr y \<longleftrightarrow> (\<exists>x. r = Inr x \<and> f x = Inr y)"
  by (cases r) (simp_all add: andThen_def)

lemma andThen_simps [simp]: "andThen (Inl e) f = Inl e" "andThen (Inr x) f = f x"
  by (simp_all add: andThen_def)

lemma pendingWork_simps [simp]:
  "pendingWork (setContext f m) = pendingWork m"
  "pendingWork (emit x m) = pendingWork m"
  "pendingWork (send ev m) = pendingWork m + taskWeight (Send ev)"
  "pendingWork (setTimeout t m) = pendingWork m + taskWeight t"
  "pendingWork (m\<lparr> state := s \<rparr>) = pendingWork m"
  by (simp_all add: pendingWork_def setContext_def emit_def send_def setTimeout_def)

lemma taskWeight_simps [simp]:
  "taskWeight (Send (plainEvent NAVIGATION_COMPLETE)) = 1"
  "taskWeight (Send ((plainEvent NAVIGATION_ERROR)\<lparr> ev_error := e \<rparr>)) = 1"
  "taskWeight InitialGuard = 2"
  by (simp_all add: taskWeight_def internal_def plainEvent_def)

definition actionCost :: "action \<Rightarrow> nat" where
  "actionCost a = (case a of InvokeBeforeNavigate \<Rightarrow> 1 | HandlePopState \<Rightarrow> 1
     | HandleHashChange \<Rightarrow> 1 | InvokeBeforeNavigateForInitial \<Rightarrow> 2 | _ \<Rightarrow> 0)"

lemma invokeBeforeNavigate_work:
  "invokeBeforeNavigate pf props ev m = Inr m' \<Longrightarrow> pendingWork m' \<le> pendingWork m + 1"
  by (auto simp: invokeBeforeNavigate_def andThen_Inr_iff Let_def
      split: option.splits if_splits guard_result.splits)

lemma initialGuard_work:
  "initialGuard pf props m = Inr m' \<Longrightarrow> pendingWork m' \<le> pendingWork m + 1"
  by (auto simp: initialGuard_def andThen_Inr_iff Let_def
      split: option.splits if_splits guard_result.splits)

lemma runAction_work:
  "runAction a pf props ev m = Inr m' \<Longrightarrow> pendingWork m' \<le> pendingWork m + actionCost a"
proof (cases a)
  case InvokeBeforeNavigate
  then show "runAction a pf props ev m = Inr m' \<Longrightarrow> ?thesis"
    by (auto simp: runAction_def actionCost_def dest: invokeBeforeNavigate_work)
qed (auto simp: runAction_def actionCost_def andThen_Inr_iff Let_def
      initializeWithGuards_def setNavigating_def clearNavigating_def updateLocation_def
      updateHistory_def goBack_def goForward_def handlePopState_def handleHashChange_def
      invokeNavigationStart_def invokeNavigationEnd_def invokeNavigationError_def
      invokeOnNavigate_def invokeBeforeNavigateForInitial_def updateBrowserHistory_def
      scrollToTopEffect_def
      split: option.splits if_splits nav_type.splits)

lemma runActions_work:
  "runActions as pf props ev m = Inr m'
   \<Longrightarrow> pendingWork m' \<le> pendingWork m + sum_list (map actionCost as)"
proof (induction as arbitrary: m)
  case Nil
  then show ?case by simp
next
  case (Cons a as)
  from Cons.prems obtain m1 where a: "runAction a pf props ev m = Inr m1"
    and r: "runActions as pf props ev m1 = Inr m'"
    by (auto simp: andThen_Inr_iff)
  from runAction_work [OF a] Cons.IH [OF r] show ?case by simp
qed

lemma transition_work:
  assumes "transition pf props ev m = Inr m'"
  shows "pendingWork m' < pendingWork m + taskWeight (Send ev)"
proof (cases "chooseTransition (on (state m) (ev_type ev)) props (ctx m)")
  case None
  with assms show ?thesis by (simp add: transition_def taskWeight_def)
next
  case (Some t)
  define target where "target = (case t_target t of None \<Rightarrow> state m | Some s \<Rightarrow> s)"
  from assms Some have "andThen (runActions (t_actions t) pf props ev (m\<lparr> state := target \<rparr>))
      (\<lambda>m1. if target \<noteq> state m then runActions (entry target) pf props ev m1 else Inr m1)
      = Inr m'"
    by (simp add: transition_def Let_def target_def cong: if_cong)
  then obtain m1 where
    a: "runActions (t_actions t) pf props ev (m\<lparr> state := target \<rparr>) = Inr m1"
    and b: "(if target \<noteq> state m then runActions (entry target) pf props ev m1 else Inr m1) = Inr m'"
    unfolding andThen_Inr_iff by blast
  have w1: "pendingWork m1 \<le> pendingWork m + sum_list (map actionCost (t_actions t))"
    using runActions_work [OF a] by simp
  have w2: "pendingWork m' \<le> pendingWork m1
      + (if target \<noteq> state m then sum_list (map actionCost (entry target)) else 0)"
    using b runActions_work [of "entry target" pf props ev m1 m'] by (auto split: if_splits)
  have c: "sum_list (map actionCost (t_actions t))
      + (if target \<noteq> state m then sum_list (map actionCost (entry target)) else 0)
      < taskWeight (Send ev)"
    using Some unfolding target_def
    by (cases "state m"; cases "ev_type ev")
       (auto simp: startNavigation_def actionCost_def taskWeight_def internal_def
          split: if_splits)
  from w1 w2 c show ?thesis by linarith
qed

lemma perform_work:
  "perform pf props t m = Inr m' \<Longrightarrow> pendingWork m' < pendingWork m + taskWeight t"
  by (cases t) (auto simp: perform_def dest: transition_work initialGuard_work)

lemma nextTask_work:
  "nextTask m = Some (t, m0) \<Longrightarrow> pendingWork m = pendingWork m0 + taskWeight t"
  by (auto simp: nextTask_def pendingWork_def split: list.splits)

text \<open>
  The event loop: perform the queued tasks until none is left, or until an exception
  escapes.
\<close>

function run :: "platform \<Rightarrow> 'm RouterProps \<Rightarrow> 'm machine \<Rightarrow> js_error + 'm machine" where
  "run pf props m =
     (case nextTask m of
        None \<Rightarrow> Inr m
      | Some (t, m0) \<Rightarrow>
          (case perform pf props t m0 of
             Inl e \<Rightarrow> Inl e
           | Inr m' \<Rightarrow> run pf props m'))"
  by pat_completeness auto
termination
proof (relation "measure (\<lambda>(pf, props, m). pendingWork m)")
  show "wf (measure (\<lambda>(pf, props, m). pendingWork m))" by simp
next
  fix pf :: platform and props :: "'m RouterProps" and m :: "'m machine"
    and x t m0 m'
  assume "nextTask m = Some x" "(t, m0) = x" "perform pf props t m0 = Inr m'"
  then show "((pf, props, m'), (pf, props, m)) \<in> measure (\<lambda>(pf, props, m). pendingWork m)"
    using perform_work [of pf props t m0 m'] nextTask_work [of m t m0] by auto
qed

declare run.simps [simp del]

section \<open>Notions used in the properties\<close>

text \<open>
  The history invariant: the cursor is a valid index into the stack, which is not empty.
\<close>

definition historyInv :: "'m PrivateContext \<Rightarrow> bool" where
  "historyInv c = (0 \<le> int (historyIndex c) \<and> historyIndex c < length (historyStack c)
                   \<and> 1 \<le> length (historyStack c))"


definition proposal ::
  "platform \<Rightarrow> 'm RouterProps \<Rightarrow> event \<Rightarrow> 'm machine \<Rightarrow> js_error + 'm NavigationDetails option" where
  "proposal pf props ev m =
     (case chooseTransition (on (state m) (ev_type ev)) props (ctx m) of
        None \<Rightarrow> Inr None
      | Some t \<Rightarrow>
          andThen (runActions (t_actions t) pf props ev
                     (m\<lparr> state := (case t_target t of None \<Rightarrow> state m | Some s \<Rightarrow> s) \<rparr>))
            (\<lambda>m1. Inr (pendingNavigation (ctx m1))))"




text \<open>
  Reading the trace: calls of the guard, calls of \<open>onNavigationStart\<close>, platform writes,
  and the calls of callbacks in order.
\<close>

definition isGuardCall :: "'m effect \<Rightarrow> bool" where
  "isGuardCall x = (case x of BeforeNavigateCall _ \<Rightarrow> True | _ \<Rightarrow> False)"

definition guardCalls :: "'m machine \<Rightarrow> nat" where
  "guardCalls m = length (filter isGuardCall (trace m))"

definition isStartCall :: "'m effect \<Rightarrow> bool" where
  "isStartCall x = (case x of NavigationStartCall _ \<Rightarrow> True | _ \<Rightarrow> False)"

definition isWrite :: "'m effect \<Rightarrow> bool" where
  "isWrite x = (case x of HistoryWrite _ _ \<Rightarrow> True | HashWrite _ \<Rightarrow> True | ScrollTo _ _ \<Rightarrow> True
                | _ \<Rightarrow> False)"

definition callbacks :: "'m machine \<Rightarrow> 'm effect list" where
  "callbacks m = filter (\<lambda>x. \<not> isWrite x) (trace m)"

text \<open>
  \<open>placeholderOnly\<close>: every call of the error observer in a piece of trace carries
  \<open>errorDetails\<close>. \<open>extends m m'\<close>: the trace of \<open>m'\<close> is the trace of \<open>m\<close> followed by
  such a piece.
\<close>

definition placeholderOnly :: "'m effect list \<Rightarrow> bool" where
  "placeholderOnly xs = list_all (\<lambda>x. case x of NavigationErrorCall _ d \<Rightarrow> d = errorDetails
                                     | _ \<Rightarrow> True) xs"

definition extends :: "'m machine \<Rightarrow> 'm machine \<Rightarrow> bool" where
  "extends m m' = (\<exists>new. trace m' = trace m @ new \<and> placeholderOnly new)"



definition startedFrom :: "'m machine \<Rightarrow> 'm machine \<Rightarrow> bool" where
  "startedFrom m m1 =
     (state m1 = state m \<and> location (ctx m1) = location (ctx m)
      \<and> previousLocation (ctx m1) = previousLocation (ctx m)
      \<and> historyStack (ctx m1) = historyStack (ctx m)
      \<and> microtasks m1 = microtasks m
      \<and> (timers m1 = timers m \<or> timers m1 = timers m @ [Send (plainEvent NAVIGATION_COMPLETE)])
      \<and> (\<exists>d. pendingNavigation (ctx m1) = Some d \<and> nav_from d \<noteq> None)
      \<and> (\<exists>pre. trace m1 = trace m @ pre \<and> (\<forall>x\<in>set pre. isStartCall x)))"


section \<open>A platform for examples\<close>

text \<open>
  The examples below need one concrete platform. \<open>serverPlatform\<close> has no window. Its URL
  parser accepts a string that starts with one \<open>/\<close> and is made of letters, digits, \<open>_\<close>,
  \<open>-\<close>, \<open>/\<close>, \<open>?\<close>, \<open>#\<close>, \<open>=\<close> and \<open>&\<close>, and cuts it at the first \<open>#\<close> and the first
  \<open>?\<close>, as \<open>new URL(u, "http://localhost")\<close> does on such a string; it refuses every other
  string. Its regular expressions are the ones \<open>matchesPattern\<close> and \<open>extractParams\<close>
  build from patterns of letters, digits, \<open>_\<close>, \<open>-\<close>, \<open>/\<close> and \<open>:name\<close> parameters:
  \<open>^\<close>, literal characters, groups \<open>([^/]+)\<close> and \<open>(?<name>[^/]+)\<close>, \<open>$\<close>; every other
  source is refused.
\<close>

definition isPathChar :: "char \<Rightarrow> bool" where
  "isPathChar c = (isWordChar c \<or> c = CHR ''/'' \<or> c = CHR ''-'')"

definition isUrlChar :: "char \<Rightarrow> bool" where
  "isUrlChar c = (isPathChar c \<or> c = CHR ''?'' \<or> c = CHR ''#'' \<or> c = CHR ''='' \<or> c = CHR ''&'')"

definition keyValue :: "string \<Rightarrow> string \<times> string" where
  "keyValue s = (takeWhile (\<lambda>c. c \<noteq> CHR ''='') s, drop 1 (dropWhile (\<lambda>c. c \<noteq> CHR ''='') s))"

definition simpleSearchParams :: "string \<Rightarrow> (string \<times> string) list" where
  "simpleSearchParams q = map keyValue (filter (\<lambda>p. p \<noteq> []) (split CHR ''&'' q))"

definition simpleURL :: "string \<Rightarrow> string \<Rightarrow> url option" where
  "simpleURL u base =
     (if startsWith u ''/'' \<and> \<not> startsWith u ''//'' \<and> list_all isUrlChar u then
        (let beforeHash = takeWhile (\<lambda>c. c \<noteq> CHR ''#'') u;
             frag = drop 1 (dropWhile (\<lambda>c. c \<noteq> CHR ''#'') u);
             p = takeWhile (\<lambda>c. c \<noteq> CHR ''?'') beforeHash;
             q = drop 1 (dropWhile (\<lambda>c. c \<noteq> CHR ''?'') beforeHash)
         in Some \<lparr> url_pathname = p,
                   url_search = (if q = [] then [] else CHR ''?'' # q),
                   url_hash = (if frag = [] then [] else CHR ''#'' # frag),
                   url_searchParams = simpleSearchParams q \<rparr>)
      else None)"

datatype rx_token = Lit char | Group "string option"

function rxTokens :: "string \<Rightarrow> rx_token list option" where
  "rxTokens [] = Some []"
| "rxTokens (c # cs) =
     (if prefix ''([^/]+)'' (c # cs) then map_option ((#) (Group None)) (rxTokens (drop 6 cs))
      else if prefix ''(?<'' (c # cs) then
        (let nm = takeWhile isWordChar (drop 2 cs); rest = dropWhile isWordChar (drop 2 cs)
         in if nm \<noteq> [] \<and> \<not> (48 \<le> (of_char (hd nm) :: nat) \<and> (of_char (hd nm) :: nat) \<le> 57)
               \<and> prefix ''>[^/]+)'' rest
            then map_option ((#) (Group (Some nm))) (rxTokens (drop 7 rest))
            else None)
      else if isPathChar c then map_option ((#) (Lit c)) (rxTokens cs)
      else None)"
  by pat_completeness auto
termination
  apply (relation "measure length")
     apply simp_all
  subgoal for cs
    using length_dropWhile_le [of isWordChar "drop 2 cs"] by simp
  done

fun rxMatches :: "rx_token list \<Rightarrow> string \<Rightarrow> (string \<times> string) list list" where
  "rxMatches [] s = (if s = [] then [[]] else [])"
| "rxMatches (Lit c # ts) s =
     (case s of [] \<Rightarrow> [] | d # s' \<Rightarrow> if c = d then rxMatches ts s' else [])"
| "rxMatches (Group nm # ts) s =
     concat (map (\<lambda>n. map (\<lambda>bs. (case nm of None \<Rightarrow> bs | Some k \<Rightarrow> (k, take n s) # bs))
                          (rxMatches ts (drop n s)))
                 (rev [1 ..< Suc (length (takeWhile (\<lambda>c. c \<noteq> CHR ''/'') s))]))"

definition groupNames :: "rx_token list \<Rightarrow> string list" where
  "groupNames ts = concat (map (\<lambda>t. case t of Group (Some k) \<Rightarrow> [k] | _ \<Rightarrow> []) ts)"

definition rxCompile :: "string \<Rightarrow> rx_token list option" where
  "rxCompile src =
     (if prefix ''^'' src \<and> suffix ''$'' src \<and> 2 \<le> length src then
        (case rxTokens (butlast (drop 1 src)) of
           None \<Rightarrow> None
         | Some ts \<Rightarrow> if distinct (groupNames ts) then Some ts else None)
      else None)"

definition simpleRegexTest :: "string \<Rightarrow> string \<Rightarrow> bool option" where
  "simpleRegexTest src s = map_option (\<lambda>ts. rxMatches ts s \<noteq> []) (rxCompile src)"

definition simpleRegexGroups :: "string \<Rightarrow> string \<Rightarrow> (string \<times> string) list option option" where
  "simpleRegexGroups src s =
     map_option (\<lambda>ts. case rxMatches ts s of [] \<Rightarrow> None
                      | bs # _ \<Rightarrow> if groupNames ts = [] then None else Some bs) (rxCompile src)"

definition serverPlatform :: platform where
  "serverPlatform = \<lparr> window = None, newURL = simpleURL, regexTest = simpleRegexTest,
     regexGroups = simpleRegexGroups, urlSearchParams = (\<lambda>s. simpleSearchParams (if prefix ''?'' s then drop 1 s else s)) \<rparr>"

text \<open>
  The reading of "segment-or-full prefix" used to compare \<open>isActive\<close> with its description:
  \<open>cur\<close> is \<open>tp\<close> itself, or continues \<open>tp\<close> with a \<open>/\<close>, or \<open>tp\<close> already ends at a \<open>/\<close>.
\<close>

definition segmentPrefix :: "string \<Rightarrow> string \<Rightarrow> bool" where
  "segmentPrefix tp cur =
     (cur = tp \<or> prefix (tp @ ''/'') cur \<or> (suffix ''/'' tp \<and> prefix tp cur))"

text \<open>A server-side platform, used for examples: no window, and nothing parses.\<close>

definition noPlatform :: platform where
  "noPlatform = \<lparr> window = None, newURL = (\<lambda>_ _. None), regexTest = (\<lambda>_ _. None),
     regexGroups = (\<lambda>_ _. None), urlSearchParams = (\<lambda>_. []) \<rparr>"

definition plainLocation :: "string \<Rightarrow> unit RouteLocation" where
  "plainLocation p = \<lparr> pathname = p, search = [], hash = [], params = [], query = [],
     meta = None, name = None \<rparr>"

definition plainTarget :: "string \<Rightarrow> unit nav_target" where
  "plainTarget p = ToLocation \<lparr> pl_pathname = Some p, pl_search = None, pl_hash = None,
     pl_params = None, pl_query = None, pl_meta = None, pl_name = None \<rparr>"

definition route :: "string \<Rightarrow> unit RouteDefinition" where
  "route p = \<lparr> path = p, route_name = None, route_meta = None \<rparr>"

text \<open>
  Props, guards, events and machines for the examples. \<open>idleAt p\<close> is the idle machine at
  \<open>p\<close> with a one-entry history; \<open>startedAt p\<close> is the machine right after construction on
  a platform whose address is \<open>p\<close>.
\<close>

definition defaultProps :: "unit RouterProps" where
  "defaultProps = \<lparr> basePath = ''/'', hashRouting = False, initialLocation = None,
     routes = None, scrollToTop = True, onBeforeNavigate = None, onNavigate = False,
     onNavigationStart = False, onNavigationEnd = False, onNavigationError = False \<rparr>"

definition exampleRoutes :: "unit RouteDefinition list" where
  "exampleRoutes = [route ''/'', route ''/users/:id'', route ''*'']"

definition blockingGuard :: "unit NavigationDetails \<Rightarrow> guard_result" where
  "blockingGuard d =
     (if nav_type d = TInitial \<or> pathname (nav_to d) = ''/admin'' then GBool False else GVoid)"


definition blockingProps :: "unit RouterProps" where
  "blockingProps = defaultProps\<lparr> routes := Some exampleRoutes,
     onBeforeNavigate := Some blockingGuard, onNavigate := True, onNavigationError := True \<rparr>"


definition navigateTo :: "string \<Rightarrow> event" where
  "navigateTo p = (plainEvent NAVIGATE)\<lparr> ev_pathname := Some p, ev_search := Some [],
     ev_hash := Some [] \<rparr>"


definition pushDetails :: "string \<Rightarrow> string \<Rightarrow> unit NavigationDetails" where
  "pushDetails p q = \<lparr> nav_from = Some (plainLocation p), nav_to = plainLocation q,
     nav_type = TPush, nav_source = Some ''programmatic'' \<rparr>"

definition idleAt :: "string \<Rightarrow> unit machine" where
  "idleAt p = \<lparr> state = Idle,
     ctx = \<lparr> location = plainLocation p, previousLocation = None, navigating = False,
             pendingNavigation = None, initialized = True, historyStack = [plainLocation p],
             historyIndex = 0 \<rparr>,
     trace = [], microtasks = [], timers = [] \<rparr>"


definition exHistory :: "unit machine" where
  "exHistory = \<lparr> state = Idle,
     ctx = \<lparr> location = plainLocation ''/a'', previousLocation = Some (plainLocation ''/b''),
             navigating = True, pendingNavigation = Some (pushDetails ''/a'' ''/c''),
             initialized = True,
             historyStack = [plainLocation ''/'', plainLocation ''/a'', plainLocation ''/b''],
             historyIndex = 1 \<rparr>,
     trace = [], microtasks = [], timers = [] \<rparr>"

definition exTwoEntries :: "unit machine" where
  "exTwoEntries = \<lparr> state = Idle,
     ctx = \<lparr> location = plainLocation ''/admin'', previousLocation = Some (plainLocation ''/''),
             navigating = False, pendingNavigation = None, initialized = True,
             historyStack = [plainLocation ''/'', plainLocation ''/admin''],
             historyIndex = 1 \<rparr>,
     trace = [], microtasks = [], timers = [] \<rparr>"

definition blockEverything :: "unit RouterProps" where
  "blockEverything = defaultProps\<lparr> onBeforeNavigate := Some (\<lambda>d. GBool False) \<rparr>"

definition exBlocked :: "unit machine" where
  "exBlocked = \<lparr> state = Error,
     ctx = \<lparr> location = plainLocation ''/'', previousLocation = None, navigating = False,
             pendingNavigation = None, initialized = True, historyStack = [plainLocation ''/''],
             historyIndex = 0 \<rparr>,
     trace = [BeforeNavigateCall (pushDetails ''/'' ''/admin''),
              NavigationErrorCall ''Navigation prevented'' errorDetails],
     microtasks = [], timers = [] \<rparr>"

section \<open>Active-route detection\<close>

lemma segmentPrefix_prefix: "segmentPrefix tp cur \<Longrightarrow> prefix tp cur"
  by (auto simp: segmentPrefix_def dest: append_prefixD)

text \<open>
  C1 (as the code has it). Once the target resolves to a target pathname \<open>tp\<close> (its
  \<open>pathname\<close>, or \<open>/\<close> when that is absent or empty), exact mode answers whether the current
  pathname equals \<open>tp\<close>, and non-exact mode answers whether the current pathname starts
  with \<open>tp\<close> as a plain string; every segment-or-full prefix is accepted, but so is any other
  string prefix.
\<close>

theorem isActive_spec:
  assumes "resolveTarget pf bp to = Inr target"
    and "tp = orDefault (pl_pathname target) ''/''"
  shows "isActive pf bp cur to True = Inr (pathname cur = tp)
       \<and> isActive pf bp cur to False = Inr (prefix tp (pathname cur))
       \<and> (segmentPrefix tp (pathname cur)
            \<longrightarrow> isActive pf bp cur to False = Inr True)"
  using assms by (auto simp: isActive_def startsWith_def dest: segmentPrefix_prefix)

theorem isActive_spec_witness:
  "isActive noPlatform ''/'' (plainLocation ''/users/123'') (plainTarget ''/users'') True = Inr False
   \<and> isActive noPlatform ''/'' (plainLocation ''/users/123'') (plainTarget ''/users'') False = Inr True
   \<and> segmentPrefix ''/users'' ''/users/123''"
proof -
  have r: "resolveTarget noPlatform ''/'' (plainTarget ''/users'')
        = Inr \<lparr> pl_pathname = Some ''/users'', pl_search = None, pl_hash = None,
                pl_params = None, pl_query = None, pl_meta = None, pl_name = None \<rparr>"
    by (simp add: resolveTarget_def plainTarget_def)
  have t: "''/users'' = orDefault (pl_pathname \<lparr> pl_pathname = Some ''/users'', pl_search = None,
      pl_hash = None, pl_params = None, pl_query = None, pl_meta = (None :: unit option),
      pl_name = None \<rparr>) ''/''"
    by (simp add: orDefault_def orElse_def)
  have s: "segmentPrefix ''/users'' ''/users/123''"
    by (simp add: segmentPrefix_def)
  from isActive_spec [OF r t, of "plainLocation ''/users/123''"] s
  show ?thesis by (simp add: plainLocation_def)
qed

text \<open>
  C1 as stated fails: with the current pathname \<open>/about-us\<close>, the target \<open>/about\<close> is
  reported active in non-exact mode although \<open>/about-us\<close> neither equals \<open>/about\<close> nor
  extends it at a \<open>/\<close>.
\<close>

theorem isActive_not_segment_prefix:
  "isActive noPlatform ''/'' (plainLocation ''/about-us'') (plainTarget ''/about'') False = Inr True
   \<and> \<not> segmentPrefix ''/about'' ''/about-us''"
  by (simp add: isActive_def resolveTarget_def plainTarget_def plainLocation_def orDefault_def
      orElse_def startsWith_def segmentPrefix_def suffix_to_prefix)

section \<open>URL round trip\<close>

text \<open>
  With the default base path, \<open>createUrl\<close> only concatenates, and \<open>parseUrl\<close> returns the
  pathname the platform's URL parser reports.
\<close>

lemma roundtrip_root:
  assumes "window pf = None"
    and "newURL pf (pn @ sr @ hs) ''http://localhost'' = Some uo"
    and "url_pathname uo = pn"
  shows "\<exists>l. (parseUrl pf (createUrl pn sr hs ''/'') ''/'' :: js_error + 'm RouteLocation) = Inr l
           \<and> pathname l = pn"
  using assms by (simp add: createUrl_def parseUrl_def Let_def)

text \<open>
  With any other base path, the URL is \<open>basePath\<close> followed by the pathname without its
  leading slash, and parsing it back removes \<open>basePath\<close> only: whenever the URL parser
  reports the path it was given, a pathname \<open>/rest\<close> comes back as \<open>rest\<close>.
\<close>

lemma roundtrip_drops_slash:
  assumes "bp \<noteq> []" "bp \<noteq> ''/''" "rest \<noteq> []"
    and "window pf = None"
    and "newURL pf (bp @ rest) ''http://localhost'' = Some uo"
    and "url_pathname uo = bp @ rest"
  shows "createUrl (CHR ''/'' # rest) [] [] bp = bp @ rest"
    and "\<exists>l. (parseUrl pf (createUrl (CHR ''/'' # rest) [] [] bp) bp :: js_error + 'm RouteLocation) = Inr l
           \<and> pathname l = rest"
  using assms
  by (simp_all add: createUrl_def parseUrl_def startsWith_def orElse_def Let_def)

text \<open>
  C2 fails on the code. With the documented base path \<open>/my-app\<close>, the location \<open>/about\<close>
  becomes the URL \<open>/my-appabout\<close>, and parsing that URL gives the pathname \<open>about\<close>, not
  \<open>/about\<close>.
\<close>

theorem roundtrip_basePath_fails:
  "createUrl ''/about'' [] [] ''/my-app'' = ''/my-appabout''
   \<and> (parseUrl serverPlatform (createUrl ''/about'' [] [] ''/my-app'') ''/my-app''
        :: js_error + unit RouteLocation) = Inr (plainLocation ''about'')
   \<and> pathname (plainLocation ''about'') \<noteq> ''/about''"
  by code_simp

section \<open>Route specificity\<close>
















section \<open>Basic facts about the machine\<close>

lemma machine_fields [simp]:
  "state (setContext f m) = state m" "ctx (setContext f m) = f (ctx m)"
  "trace (setContext f m) = trace m" "microtasks (setContext f m) = microtasks m"
  "timers (setContext f m) = timers m"
  "state (emit x m) = state m" "ctx (emit x m) = ctx m"
  "trace (emit x m) = trace m @ [x]" "microtasks (emit x m) = microtasks m"
  "timers (emit x m) = timers m"
  "state (send ev m) = state m" "ctx (send ev m) = ctx m"
  "trace (send ev m) = trace m" "microtasks (send ev m) = microtasks m @ [Send ev]"
  "timers (send ev m) = timers m"
  "state (setTimeout t m) = state m" "ctx (setTimeout t m) = ctx m"
  "trace (setTimeout t m) = trace m" "microtasks (setTimeout t m) = microtasks m"
  "timers (setTimeout t m) = timers m @ [t]"
  by (simp_all add: setContext_def emit_def send_def setTimeout_def)

lemmas action_defs =
  initializeWithGuards_def setNavigating_def clearNavigating_def updateLocation_def
  updateHistory_def goBack_def goForward_def handlePopState_def handleHashChange_def
  invokeNavigationStart_def invokeNavigationEnd_def invokeNavigationError_def
  invokeBeforeNavigate_def invokeOnNavigate_def invokeBeforeNavigateForInitial_def
  updateBrowserHistory_def scrollToTopEffect_def

lemma andThen_Inr_right [simp]: "andThen r Inr = r"
  by (cases r) simp_all

lemma runActions_Nil [simp]: "runActions [] pf props ev = Inr"
  by (rule ext) simp

lemma run_done: "nextTask m = None \<Longrightarrow> run pf props m = Inr m"
  by (subst run.simps) simp

lemma run_step:
  "nextTask m = Some (t, m0) \<Longrightarrow> perform pf props t m0 = Inr m1
   \<Longrightarrow> run pf props m = run pf props m1"
  by (subst run.simps) simp

lemma run_throw:
  "nextTask m = Some (t, m0) \<Longrightarrow> perform pf props t m0 = Inl e \<Longrightarrow> run pf props m = Inl e"
  by (subst run.simps) simp

lemma nextTask_ctx: "nextTask m = Some (t, m0) \<Longrightarrow> ctx m0 = ctx m"
  by (auto simp: nextTask_def split: list.splits)





lemma callbacks_simps [simp]:
  "callbacks (setContext f m) = callbacks m"
  "callbacks (send ev m) = callbacks m"
  "callbacks (setTimeout t m) = callbacks m"
  "callbacks (m\<lparr> state := s \<rparr>) = callbacks m"
  "callbacks (m\<lparr> timers := ts \<rparr>) = callbacks m"
  "callbacks (emit x m) = callbacks m @ (if isWrite x then [] else [x])"
  by (simp_all add: callbacks_def setContext_def send_def setTimeout_def emit_def)

lemma guardCalls_simps [simp]:
  "guardCalls (setContext f m) = guardCalls m"
  "guardCalls (send ev m) = guardCalls m"
  "guardCalls (setTimeout t m) = guardCalls m"
  "guardCalls (m\<lparr> state := s \<rparr>) = guardCalls m"
  "guardCalls (m\<lparr> timers := ts \<rparr>) = guardCalls m"
  "guardCalls (emit x m) = guardCalls m + (if isGuardCall x then 1 else 0)"
  by (simp_all add: guardCalls_def setContext_def send_def setTimeout_def emit_def)

lemma isWrite_simps [simp]:
  "isWrite (HistoryWrite a b)" "isWrite (HashWrite c)" "isWrite (ScrollTo i j)"
  "\<not> isWrite (BeforeNavigateCall d)" "\<not> isWrite (NavigationStartCall d)"
  "\<not> isWrite (NavigationEndCall d)" "\<not> isWrite (NavigateCall d)"
  "\<not> isWrite (NavigationErrorCall e d)"
  by (simp_all add: isWrite_def)

lemma isGuardCall_simps [simp]:
  "\<not> isGuardCall (HistoryWrite a b)" "\<not> isGuardCall (HashWrite c)" "\<not> isGuardCall (ScrollTo i j)"
  "isGuardCall (BeforeNavigateCall d)" "\<not> isGuardCall (NavigationStartCall d)"
  "\<not> isGuardCall (NavigationEndCall d)" "\<not> isGuardCall (NavigateCall d)"
  "\<not> isGuardCall (NavigationErrorCall e d)"
  by (simp_all add: isGuardCall_def)

subsection \<open>Route metadata never changes where a location points\<close>

lemma enrich_fields:
  assumes "enrichLocationWithMeta pf loc rso = Inr l"
  shows "pathname l = pathname loc" "search l = search loc" "hash l = hash loc"
    "params l = params loc" "query l = query loc"
  using assms
  by (auto simp: enrichLocationWithMeta_def andThen_Inr_iff split: option.splits)


lemma createNav_fields:
  assumes "createNavigationDetailsWithMeta pf frm to ty src rso = Inr d"
  shows "nav_type d = ty" "nav_source d = Some src" "pathname (nav_to d) = pathname to"
    "nav_from d = None \<longleftrightarrow> frm = None"
  using assms
  by (auto simp: createNavigationDetailsWithMeta_def andThen_Inr_iff
      split: option.splits dest: enrich_fields)







section \<open>The history stack\<close>

lemma updateHistory_inv:
  assumes "historyInv (ctx m)" "updateHistory pf props ev m = Inr m'"
  shows "historyInv (ctx m')"
  using assms
  by (auto simp: updateHistory_def historyInv_def Let_def
      split: option.splits nav_type.splits)

lemma runAction_inv:
  assumes "historyInv (ctx m)" "runAction a pf props ev m = Inr m'"
  shows "historyInv (ctx m')"
  using assms
  by (cases a)
     (auto simp: runAction_def action_defs historyInv_def Let_def andThen_Inr_iff
      split: option.splits nav_type.splits if_splits guard_result.splits)

lemma runActions_inv:
  "historyInv (ctx m) \<Longrightarrow> runActions as pf props ev m = Inr m' \<Longrightarrow> historyInv (ctx m')"
proof (induction as arbitrary: m)
  case Nil
  then show ?case by simp
next
  case (Cons a as)
  from Cons.prems(2) obtain m1 where a: "runAction a pf props ev m = Inr m1"
    and r: "runActions as pf props ev m1 = Inr m'"
    by (auto simp: andThen_Inr_iff)
  from runAction_inv [OF Cons.prems(1) a] r show ?case by (rule Cons.IH)
qed

lemma transition_inv:
  assumes "historyInv (ctx m)" "transition pf props ev m = Inr m'"
  shows "historyInv (ctx m')"
proof (cases "chooseTransition (on (state m) (ev_type ev)) props (ctx m)")
  case None
  with assms show ?thesis by (simp add: transition_def)
next
  case (Some t)
  define target where "target = (case t_target t of None \<Rightarrow> state m | Some s \<Rightarrow> s)"
  from assms(2) Some have "andThen (runActions (t_actions t) pf props ev (m\<lparr> state := target \<rparr>))
      (\<lambda>m1. if target \<noteq> state m then runActions (entry target) pf props ev m1 else Inr m1)
      = Inr m'"
    by (simp add: transition_def Let_def target_def cong: if_cong)
  then obtain m1 where
    a: "runActions (t_actions t) pf props ev (m\<lparr> state := target \<rparr>) = Inr m1"
    and b: "(if target \<noteq> state m then runActions (entry target) pf props ev m1 else Inr m1) = Inr m'"
    unfolding andThen_Inr_iff by blast
  have "historyInv (ctx (m\<lparr> state := target \<rparr>))" using assms(1) by simp
  from runActions_inv [OF this a] have "historyInv (ctx m1)" .
  with b show ?thesis by (auto split: if_splits dest: runActions_inv)
qed

lemma initialGuard_inv:
  assumes "historyInv (ctx m)" "initialGuard pf props m = Inr m'"
  shows "historyInv (ctx m')"
  using assms
  by (auto simp: initialGuard_def historyInv_def Let_def andThen_Inr_iff
      split: option.splits if_splits guard_result.splits)

lemma perform_inv:
  "historyInv (ctx m) \<Longrightarrow> perform pf props t m = Inr m' \<Longrightarrow> historyInv (ctx m')"
  by (cases t) (auto simp: perform_def dest: transition_inv initialGuard_inv)

lemma run_inv:
  "historyInv (ctx m) \<Longrightarrow> run pf props m = Inr m' \<Longrightarrow> historyInv (ctx m')"
proof (induction pf props m rule: run.induct)
  case (1 pf props m)
  show ?case
  proof (cases "nextTask m")
    case None
    with "1.prems" show ?thesis by (simp add: run_done)
  next
    case (Some x)
    obtain t m0 where x: "x = (t, m0)" by (cases x)
    show ?thesis
    proof (cases "perform pf props t m0")
      case (Inl e)
      with Some x "1.prems" show ?thesis by (simp add: run_throw)
    next
      case (Inr m1)
      have "historyInv (ctx m0)" using "1.prems"(1) nextTask_ctx Some x by metis
      from perform_inv [OF this Inr] have i: "historyInv (ctx m1)" .
      have "run pf props m1 = Inr m'"
        using run_step [of m t m0 pf props m1] Some x Inr "1.prems"(2) by simp
      from "1.IH" [OF Some x [symmetric] Inr i this] show ?thesis .
    qed
  qed
qed

lemma start_inv: "start pf props = Inr m \<Longrightarrow> historyInv (ctx m)"
proof -
  assume "start pf props = Inr m"
  then obtain initLoc where
    r: "runActions (rootEntry @ entry Initializing) pf props (plainEvent INITIALIZE)
          \<lparr> state = Initializing, ctx = initialContext initLoc, trace = [],
            microtasks = [], timers = [] \<rparr> = Inr m"
    by (auto simp: start_def andThen_Inr_iff)
  have "historyInv (ctx \<lparr> state = Initializing, ctx = initialContext initLoc, trace = [],
            microtasks = [], timers = [] \<rparr>)"
    by (simp add: historyInv_def initialContext_def)
  from runActions_inv [OF this r] show ?thesis .
qed

text \<open>
  C9. In a context where the cursor is a valid index into a non-empty stack, every action
  and every run of the event loop keeps it so. \<open>updateHistory\<close> for a push keeps the
  entries up to the cursor, appends the target and moves the cursor to the new last
  index; for a replace it overwrites the entry at the cursor and changes neither the
  length nor the cursor. \<open>goBack\<close> and \<open>goForward\<close> leave the stack alone and move the
  cursor by one inside the stack, or not at all.
\<close>

theorem history_operations:
  assumes inv: "historyInv (ctx m)"
  shows "(\<forall>a m'. runAction a pf props ev m = Inr m' \<longrightarrow> historyInv (ctx m'))
     \<and> (\<forall>m'. run pf props m = Inr m' \<longrightarrow> historyInv (ctx m'))
     \<and> (\<forall>p. pendingNavigation (ctx m) = Some p \<and> nav_type p = TPush \<longrightarrow>
           (\<exists>m'. updateHistory pf props ev m = Inr m'
              \<and> historyStack (ctx m')
                  = take (historyIndex (ctx m) + 1) (historyStack (ctx m)) @ [nav_to p]
              \<and> historyIndex (ctx m') = historyIndex (ctx m) + 1
              \<and> historyIndex (ctx m') = length (historyStack (ctx m')) - 1))
     \<and> (\<forall>p. pendingNavigation (ctx m) = Some p \<and> nav_type p = TReplace \<longrightarrow>
           (\<exists>m'. updateHistory pf props ev m = Inr m'
              \<and> historyStack (ctx m') = (historyStack (ctx m))[historyIndex (ctx m) := nav_to p]
              \<and> historyStack (ctx m') ! historyIndex (ctx m) = nav_to p
              \<and> length (historyStack (ctx m')) = length (historyStack (ctx m))
              \<and> historyIndex (ctx m') = historyIndex (ctx m)))
     \<and> (\<forall>m'. goBack pf props ev m = Inr m' \<longrightarrow>
           historyStack (ctx m') = historyStack (ctx m)
         \<and> historyIndex (ctx m')
             = (if 0 < historyIndex (ctx m) then historyIndex (ctx m) - 1 else historyIndex (ctx m))
         \<and> historyIndex (ctx m') < length (historyStack (ctx m')))
     \<and> (\<forall>m'. goForward pf props ev m = Inr m' \<longrightarrow>
           historyStack (ctx m') = historyStack (ctx m)
         \<and> historyIndex (ctx m')
             = (if historyIndex (ctx m) + 1 < length (historyStack (ctx m))
                then historyIndex (ctx m) + 1 else historyIndex (ctx m))
         \<and> historyIndex (ctx m') < length (historyStack (ctx m')))"
proof (intro conjI allI impI)
  fix a m' assume "runAction a pf props ev m = Inr m'"
  with inv show "historyInv (ctx m')" by (rule runAction_inv)
next
  fix m' assume "run pf props m = Inr m'"
  with inv show "historyInv (ctx m')" by (rule run_inv)
next
  fix p assume "pendingNavigation (ctx m) = Some p \<and> nav_type p = TPush"
  with inv show "\<exists>m'. updateHistory pf props ev m = Inr m'
              \<and> historyStack (ctx m')
                  = take (historyIndex (ctx m) + 1) (historyStack (ctx m)) @ [nav_to p]
              \<and> historyIndex (ctx m') = historyIndex (ctx m) + 1
              \<and> historyIndex (ctx m') = length (historyStack (ctx m')) - 1"
    by (auto simp: updateHistory_def historyInv_def Let_def)
next
  fix p assume "pendingNavigation (ctx m) = Some p \<and> nav_type p = TReplace"
  with inv show "\<exists>m'. updateHistory pf props ev m = Inr m'
              \<and> historyStack (ctx m') = (historyStack (ctx m))[historyIndex (ctx m) := nav_to p]
              \<and> historyStack (ctx m') ! historyIndex (ctx m) = nav_to p
              \<and> length (historyStack (ctx m')) = length (historyStack (ctx m))
              \<and> historyIndex (ctx m') = historyIndex (ctx m)"
    by (auto simp: updateHistory_def historyInv_def Let_def)
next
  fix m' assume g: "goBack pf props ev m = Inr m'"
  with inv show "historyStack (ctx m') = historyStack (ctx m)"
    "historyIndex (ctx m')
             = (if 0 < historyIndex (ctx m) then historyIndex (ctx m) - 1 else historyIndex (ctx m))"
    "historyIndex (ctx m') < length (historyStack (ctx m'))"
    by (auto simp: goBack_def historyInv_def Let_def andThen_Inr_iff split: if_splits)
next
  fix m' assume g: "goForward pf props ev m = Inr m'"
  with inv show "historyStack (ctx m') = historyStack (ctx m)"
    "historyIndex (ctx m')
             = (if historyIndex (ctx m) + 1 < length (historyStack (ctx m))
                then historyIndex (ctx m) + 1 else historyIndex (ctx m))"
    "historyIndex (ctx m') < length (historyStack (ctx m'))"
    by (auto simp: goForward_def historyInv_def Let_def andThen_Inr_iff split: if_splits)
qed

theorem history_operations_witness:
  "historyInv (ctx exHistory)
   \<and> pendingNavigation (ctx exHistory) = Some (pushDetails ''/a'' ''/c'')
   \<and> nav_type (pushDetails ''/a'' ''/c'') = TPush
   \<and> map_sum id (\<lambda>m. (historyStack (ctx m), historyIndex (ctx m)))
        (updateHistory serverPlatform defaultProps (plainEvent NAVIGATION_COMPLETE) exHistory)
      = Inr ([plainLocation ''/'', plainLocation ''/a'', plainLocation ''/c''], 2)
   \<and> map_sum id (\<lambda>m. (historyStack (ctx m), historyIndex (ctx m)))
        (goBack serverPlatform defaultProps (plainEvent BACK) exHistory)
      = Inr ([plainLocation ''/'', plainLocation ''/a'', plainLocation ''/b''], 0)
   \<and> map_sum id (\<lambda>m. (historyStack (ctx m), historyIndex (ctx m)))
        (goForward serverPlatform defaultProps (plainEvent FORWARD) exHistory)
      = Inr ([plainLocation ''/'', plainLocation ''/a'', plainLocation ''/b''], 2)"
proof -
  have inv: "historyInv (ctx exHistory)" by (simp add: historyInv_def exHistory_def)
  have pd: "pendingNavigation (ctx exHistory) = Some (pushDetails ''/a'' ''/c'')"
    by (simp add: exHistory_def)
  have ty: "nav_type (pushDetails ''/a'' ''/c'') = TPush" by (simp add: pushDetails_def)
  note T = history_operations [OF inv, of serverPlatform defaultProps]
  from T [of "plainEvent NAVIGATION_COMPLETE", THEN conjunct2, THEN conjunct2, THEN conjunct1,
      rule_format, of "pushDetails ''/a'' ''/c''"] pd ty
  obtain m1 where u: "updateHistory serverPlatform defaultProps (plainEvent NAVIGATION_COMPLETE)
        exHistory = Inr m1"
    "historyStack (ctx m1) = take (historyIndex (ctx exHistory) + 1) (historyStack (ctx exHistory))
        @ [nav_to (pushDetails ''/a'' ''/c'')]"
    "historyIndex (ctx m1) = historyIndex (ctx exHistory) + 1"
    by blast
  have gb: "goBack serverPlatform defaultProps (plainEvent BACK) exHistory
      = Inr (setContext (\<lambda>c. c\<lparr> historyIndex := 0, pendingNavigation := Some
              \<lparr> nav_from = Some (plainLocation ''/a''), nav_to = plainLocation ''/'',
                nav_type = TBack, nav_source = Some ''programmatic'' \<rparr> \<rparr>) exHistory)"
    by code_simp
  have gf: "goForward serverPlatform defaultProps (plainEvent FORWARD) exHistory
      = Inr (setContext (\<lambda>c. c\<lparr> historyIndex := 2, pendingNavigation := Some
              \<lparr> nav_from = Some (plainLocation ''/a''), nav_to = plainLocation ''/b'',
                nav_type = TForward, nav_source = Some ''programmatic'' \<rparr> \<rparr>) exHistory)"
    by code_simp
  from T [of "plainEvent BACK", THEN conjunct2, THEN conjunct2, THEN conjunct2, THEN conjunct2,
      THEN conjunct1, rule_format, OF gb]
  have b: "historyStack (ctx (setContext (\<lambda>c. c\<lparr> historyIndex := 0, pendingNavigation := Some
              \<lparr> nav_from = Some (plainLocation ''/a''), nav_to = plainLocation ''/'',
                nav_type = TBack, nav_source = Some ''programmatic'' \<rparr> \<rparr>) exHistory))
        = historyStack (ctx exHistory)"
    by blast
  from T [of "plainEvent FORWARD", THEN conjunct2, THEN conjunct2, THEN conjunct2, THEN conjunct2,
      THEN conjunct2, rule_format, OF gf]
  have f: "historyStack (ctx (setContext (\<lambda>c. c\<lparr> historyIndex := 2, pendingNavigation := Some
              \<lparr> nav_from = Some (plainLocation ''/a''), nav_to = plainLocation ''/b'',
                nav_type = TForward, nav_source = Some ''programmatic'' \<rparr> \<rparr>) exHistory))
        = historyStack (ctx exHistory)"
    by blast
  from inv pd ty u gb gf b f show ?thesis
    by (simp add: exHistory_def pushDetails_def)
qed

section \<open>Machine construction\<close>

lemma start_result:
  assumes "start pf props = Inr m0"
  shows "state m0 = Initializing \<and> microtasks m0 = [] \<and> timers m0 = [InitialGuard]
       \<and> trace m0 = [] \<and> previousLocation (ctx m0) = None \<and> \<not> navigating (ctx m0)
       \<and> initialized (ctx m0)
       \<and> historyStack (ctx m0) = [location (ctx m0)] \<and> historyIndex (ctx m0) = 0
       \<and> (\<exists>d0. pendingNavigation (ctx m0) = Some d0 \<and> nav_from d0 = None
              \<and> nav_type d0 = TInitial \<and> nav_source d0 = Some ''browser'')"
  using assms
  by (auto simp: start_def rootEntry_def runAction_def initializeWithGuards_def
      invokeBeforeNavigateForInitial_def initialContext_def andThen_Inr_iff Let_def
      dest: createNav_fields)


section \<open>Starting a navigation\<close>

lemma choose_start:
  assumes "state m = Idle \<or> state m = Error"
    and "chooseTransition (on (state m) (ev_type ev)) props (ctx m) = Some t"
  shows "t_target t = Some Navigating
       \<and> (\<exists>extra. t_actions t = SetNavigating # InvokeNavigationStart # extra
            \<and> (extra = [] \<or> extra = [GoBack] \<or> extra = [GoForward] \<or> extra = [HandlePopState]
                 \<or> (extra = [HandleHashChange] \<and> hashRouting props)))"
  using assms
  by (cases "ev_type ev")
     (auto simp: startNavigation_def checkGuard_def split: if_splits)

lemma setNavigating_frame:
  assumes "setNavigating pf props ev m = Inr m'"
  shows "state m' = state m \<and> trace m' = trace m \<and> microtasks m' = microtasks m
       \<and> timers m' = timers m \<and> location (ctx m') = location (ctx m)
       \<and> previousLocation (ctx m') = previousLocation (ctx m)
       \<and> historyStack (ctx m') = historyStack (ctx m)
       \<and> historyIndex (ctx m') = historyIndex (ctx m)
       \<and> (\<exists>d. pendingNavigation (ctx m') = Some d \<and> nav_from d \<noteq> None)"
  using assms
  by (auto simp: setNavigating_def Let_def andThen_Inr_iff dest: createNav_fields(4))

lemma invokeNavigationStart_frame:
  assumes "invokeNavigationStart pf props ev m = Inr m'"
  shows "state m' = state m \<and> ctx m' = ctx m \<and> microtasks m' = microtasks m
       \<and> timers m' = timers m
       \<and> (\<exists>pre. trace m' = trace m @ pre \<and> (\<forall>x\<in>set pre. isStartCall x))"
  using assms
  by (auto simp: invokeNavigationStart_def isStartCall_def split: option.splits if_splits)

lemma extra_frame:
  assumes "runActions extra pf props ev m = Inr m'"
    and "extra = [] \<or> extra = [GoBack] \<or> extra = [GoForward] \<or> extra = [HandlePopState]
         \<or> (extra = [HandleHashChange] \<and> hashRouting props)"
    and "\<exists>d. pendingNavigation (ctx m) = Some d \<and> nav_from d \<noteq> None"
  shows "state m' = state m \<and> trace m' = trace m \<and> microtasks m' = microtasks m
       \<and> (timers m' = timers m \<or> timers m' = timers m @ [Send (plainEvent NAVIGATION_COMPLETE)])
       \<and> location (ctx m') = location (ctx m)
       \<and> previousLocation (ctx m') = previousLocation (ctx m)
       \<and> historyStack (ctx m') = historyStack (ctx m)
       \<and> (\<exists>d. pendingNavigation (ctx m') = Some d \<and> nav_from d \<noteq> None)"
  using assms
  by (elim disjE conjE)
     (auto simp: runAction_def goBack_def goForward_def handlePopState_def handleHashChange_def
        Let_def andThen_Inr_iff split: if_splits dest: createNav_fields(4))

lemma start_sequence:
  assumes "state m = Idle \<or> state m = Error"
    and "chooseTransition (on (state m) (ev_type ev)) props (ctx m) = Some t"
    and "runActions (t_actions t) pf props ev m0 = Inr m1"
  shows "startedFrom m0 m1"
proof -
  from choose_start [OF assms(1,2)] obtain extra where
    acts: "t_actions t = SetNavigating # InvokeNavigationStart # extra"
    and ex: "extra = [] \<or> extra = [GoBack] \<or> extra = [GoForward] \<or> extra = [HandlePopState]
                 \<or> (extra = [HandleHashChange] \<and> hashRouting props)"
    by blast
  from assms(3) acts obtain ma mb where
    a: "setNavigating pf props ev m0 = Inr ma"
    and b: "invokeNavigationStart pf props ev ma = Inr mb"
    and c: "runActions extra pf props ev mb = Inr m1"
    by (auto simp: andThen_Inr_iff runAction_def)
  note fa = setNavigating_frame [OF a]
  note fb = invokeNavigationStart_frame [OF b]
  have "\<exists>d. pendingNavigation (ctx mb) = Some d \<and> nav_from d \<noteq> None"
    using fa fb by simp
  note fc = extra_frame [OF c ex this]
  from fb obtain pre where pre: "trace mb = trace ma @ pre" "\<forall>x\<in>set pre. isStartCall x"
    by blast
  have tr: "\<exists>pre. trace m1 = trace m0 @ pre \<and> (\<forall>x\<in>set pre. isStartCall x)"
    using fa fc pre by auto
  have tm: "timers m1 = timers m0 \<or> timers m1 = timers m0 @ [Send (plainEvent NAVIGATION_COMPLETE)]"
    using fa fb fc by auto
  have pd: "\<exists>d. pendingNavigation (ctx m1) = Some d \<and> nav_from d \<noteq> None"
    using fc by blast
  have rest: "state m1 = state m0" "location (ctx m1) = location (ctx m0)"
    "previousLocation (ctx m1) = previousLocation (ctx m0)"
    "historyStack (ctx m1) = historyStack (ctx m0)" "microtasks m1 = microtasks m0"
    using fa fb fc by simp_all
  from rest tm pd tr show ?thesis
    unfolding startedFrom_def by blast
qed


lemma proposal_start:
  assumes "state m = Idle \<or> state m = Error"
    and "proposal pf props ev m = Inr (Some d)"
  obtains t m1 where "chooseTransition (on (state m) (ev_type ev)) props (ctx m) = Some t"
    and "runActions (t_actions t) pf props ev (m\<lparr> state := Navigating \<rparr>) = Inr m1"
    and "pendingNavigation (ctx m1) = Some d"
proof (cases "chooseTransition (on (state m) (ev_type ev)) props (ctx m)")
  case None
  with assms(2) show ?thesis by (simp add: proposal_def)
next
  case (Some t)
  from choose_start [OF assms(1) Some] have "t_target t = Some Navigating" by blast
  with assms(2) Some that show ?thesis
    by (auto simp: proposal_def andThen_Inr_iff)
qed

lemma proposal_from:
  assumes "state m = Idle \<or> state m = Error" and "proposal pf props ev m = Inr (Some p)"
  shows "nav_from p \<noteq> None"
proof -
  from proposal_start [OF assms] obtain t m1 where
    ch: "chooseTransition (on (state m) (ev_type ev)) props (ctx m) = Some t"
    and ra: "runActions (t_actions t) pf props ev (m\<lparr> state := Navigating \<rparr>) = Inr m1"
    and pd: "pendingNavigation (ctx m1) = Some p"
    by blast
  from start_sequence [OF assms(1) ch ra] pd show ?thesis
    by (auto simp: startedFrom_def)
qed




section \<open>A guard that blocks\<close>



text \<open>
  The events of the examples are the ones the public operations send.
\<close>

lemma navigate_example:
  "navigate serverPlatform ''/'' (plainTarget ''/admin'') False = Inr (navigateTo ''/admin'')"
  by code_simp

text \<open>
  What the statement above leaves open: \<open>goBack\<close> and \<open>goForward\<close> move the history cursor
  before the guard is asked, and a blocked navigation does not move it back. Here the
  machine is at \<open>/admin\<close>, the second of two entries; \<open>back\<close> is blocked, the location stays
  \<open>/admin\<close>, and the cursor is on the first entry.
\<close>

lemma blocked_back_moves_cursor:
  "map_sum id (\<lambda>m. (state m, location (ctx m), historyStack (ctx m), historyIndex (ctx m)))
     (run serverPlatform blockEverything (send backEvent exTwoEntries))
   = Inr (Error, plainLocation ''/admin'', [plainLocation ''/'', plainLocation ''/admin''], 0)
   \<and> historyIndex (ctx exTwoEntries) = 1"
  by code_simp

section \<open>Committing a navigation\<close>












section \<open>A guard that blocks the initial load\<close>



section \<open>A guard that redirects\<close>




section \<open>The error observer\<close>

lemma placeholderOnly_simps [simp]:
  "placeholderOnly []"
  "placeholderOnly (xs @ ys) \<longleftrightarrow> placeholderOnly xs \<and> placeholderOnly ys"
  "placeholderOnly [NavigationErrorCall msg d] \<longleftrightarrow> d = errorDetails"
  "placeholderOnly [BeforeNavigateCall d]" "placeholderOnly [NavigationStartCall d]"
  "placeholderOnly [NavigationEndCall d]" "placeholderOnly [NavigateCall d]"
  "placeholderOnly [HistoryWrite a b]" "placeholderOnly [HashWrite c]"
  "placeholderOnly [ScrollTo i j]"
  by (simp_all add: placeholderOnly_def)

lemma extends_refl [simp]: "extends m m"
  by (simp add: extends_def)

lemma extends_trans: "extends m m1 \<Longrightarrow> extends m1 m2 \<Longrightarrow> extends m m2"
  by (auto simp: extends_def)

lemma extends_same: "trace m' = trace m \<Longrightarrow> extends m m'"
  by (simp add: extends_def)

lemma extends_emit: "placeholderOnly [x] \<Longrightarrow> extends m (emit x m)"
  by (simp add: extends_def)

lemma extends_simps [simp]:
  "extends m (setContext f m') \<longleftrightarrow> extends m m'"
  "extends m (send ev m') \<longleftrightarrow> extends m m'"
  "extends m (setTimeout t m') \<longleftrightarrow> extends m m'"
  "extends (m\<lparr> state := s \<rparr>) m' \<longleftrightarrow> extends m m'"
  "extends (m\<lparr> timers := ts \<rparr>) m' \<longleftrightarrow> extends m m'"
  "extends (m\<lparr> microtasks := ms \<rparr>) m' \<longleftrightarrow> extends m m'"
  by (simp_all add: extends_def)

lemma invokeBeforeNavigate_extends:
  "invokeBeforeNavigate pf props ev m = Inr m' \<Longrightarrow> extends m m'"
  by (auto simp: invokeBeforeNavigate_def Let_def andThen_Inr_iff
      split: option.splits if_splits guard_result.splits intro!: extends_emit)

lemma initialGuard_extends:
  "initialGuard pf props m = Inr m' \<Longrightarrow> extends m m'"
  by (auto simp: initialGuard_def Let_def andThen_Inr_iff
      split: option.splits if_splits guard_result.splits intro!: extends_emit)

lemma runAction_extends:
  "runAction a pf props ev m = Inr m' \<Longrightarrow> extends m m'"
proof (cases a)
  case InvokeBeforeNavigate
  then show "runAction a pf props ev m = Inr m' \<Longrightarrow> ?thesis"
    by (auto simp: runAction_def dest: invokeBeforeNavigate_extends)
qed (auto simp: runAction_def Let_def andThen_Inr_iff
      initializeWithGuards_def setNavigating_def clearNavigating_def updateLocation_def
      updateHistory_def goBack_def goForward_def handlePopState_def handleHashChange_def
      invokeNavigationStart_def invokeNavigationEnd_def invokeNavigationError_def
      invokeOnNavigate_def invokeBeforeNavigateForInitial_def updateBrowserHistory_def
      scrollToTopEffect_def
      split: option.splits if_splits nav_type.splits intro!: extends_emit)

lemma runActions_extends:
  "runActions as pf props ev m = Inr m' \<Longrightarrow> extends m m'"
proof (induction as arbitrary: m)
  case Nil
  then show ?case by simp
next
  case (Cons a as)
  from Cons.prems obtain m1 where a: "runAction a pf props ev m = Inr m1"
    and r: "runActions as pf props ev m1 = Inr m'"
    by (auto simp: andThen_Inr_iff)
  from runAction_extends [OF a] Cons.IH [OF r] show ?case by (rule extends_trans)
qed

lemma transition_extends:
  assumes "transition pf props ev m = Inr m'"
  shows "extends m m'"
proof (cases "chooseTransition (on (state m) (ev_type ev)) props (ctx m)")
  case None
  with assms show ?thesis by (simp add: transition_def)
next
  case (Some t)
  define target where "target = (case t_target t of None \<Rightarrow> state m | Some s \<Rightarrow> s)"
  from assms Some have "andThen (runActions (t_actions t) pf props ev (m\<lparr> state := target \<rparr>))
      (\<lambda>m1. if target \<noteq> state m then runActions (entry target) pf props ev m1 else Inr m1)
      = Inr m'"
    by (simp add: transition_def Let_def target_def cong: if_cong)
  then obtain m1 where
    a: "runActions (t_actions t) pf props ev (m\<lparr> state := target \<rparr>) = Inr m1"
    and b: "(if target \<noteq> state m then runActions (entry target) pf props ev m1 else Inr m1) = Inr m'"
    unfolding andThen_Inr_iff by blast
  from runActions_extends [OF a] have "extends m m1" by simp
  moreover from b have "extends m1 m'"
    by (auto split: if_splits dest: runActions_extends)
  ultimately show ?thesis by (rule extends_trans)
qed

lemma perform_extends: "perform pf props t m = Inr m' \<Longrightarrow> extends m m'"
  by (cases t) (auto simp: perform_def dest: transition_extends initialGuard_extends)

lemma nextTask_extends: "nextTask m = Some (t, m0) \<Longrightarrow> extends m m0"
  by (auto simp: nextTask_def split: list.splits intro: extends_same)

lemma run_extends: "run pf props m = Inr m' \<Longrightarrow> extends m m'"
proof (induction pf props m rule: run.induct)
  case (1 pf props m)
  show ?case
  proof (cases "nextTask m")
    case None
    with "1.prems" show ?thesis by (simp add: run_done)
  next
    case (Some x)
    obtain t m0 where x: "x = (t, m0)" by (cases x)
    show ?thesis
    proof (cases "perform pf props t m0")
      case (Inl e)
      with Some x "1.prems" show ?thesis by (simp add: run_throw)
    next
      case (Inr m1)
      have "run pf props m1 = Inr m'"
        using run_step [of m t m0 pf props m1] Some x Inr "1.prems" by simp
      from "1.IH" [OF Some x [symmetric] Inr this] have "extends m1 m'" .
      with nextTask_extends [of m t m0] perform_extends [OF Inr] Some x show ?thesis
        by (blast intro: extends_trans)
    qed
  qed
qed

text \<open>
  C10. Whatever the event loop adds to the trace, every call of the error observer in it
  carries the same placeholder: no \<open>from\<close>, a target with empty pathname, search, hash,
  params and query, the type \<open>push\<close> and the source \<open>programmatic\<close>. The trace is empty at
  construction. The navigation an event proposes from the idle or the error state has a
  \<open>from\<close>, so the placeholder is never the pending navigation of the blocked transition.
\<close>

theorem error_observer_placeholder:
  "(run pf props m = Inr m' \<longrightarrow>
      (\<exists>new. trace m' = trace m @ new
         \<and> (\<forall>msg d. NavigationErrorCall msg d \<in> set new \<longrightarrow> d = errorDetails)))
   \<and> (start pf props = Inr m0 \<longrightarrow> trace m0 = [])
   \<and> ((state m = Idle \<or> state m = Error) \<and> proposal pf props ev m = Inr (Some p)
        \<longrightarrow> p \<noteq> errorDetails)
   \<and> (errorDetails :: 'm NavigationDetails)
       = \<lparr> nav_from = None,
           nav_to = \<lparr> pathname = [], search = [], hash = [], params = [], query = [],
                      meta = None, name = None \<rparr>,
           nav_type = TPush, nav_source = Some ''programmatic'' \<rparr>"
proof (intro conjI impI)
  assume "run pf props m = Inr m'"
  from run_extends [OF this] obtain new where
    n: "trace m' = trace m @ new" "placeholderOnly new"
    by (auto simp: extends_def)
  have "d = errorDetails" if "NavigationErrorCall msg d \<in> set new" for msg d
    using n(2) that by (auto simp: placeholderOnly_def list_all_iff)
  with n(1) show "\<exists>new. trace m' = trace m @ new
         \<and> (\<forall>msg d. NavigationErrorCall msg d \<in> set new \<longrightarrow> d = errorDetails)"
    by blast
next
  assume "start pf props = Inr m0"
  from start_result [OF this] show "trace m0 = []" by simp
next
  assume a: "(state m = Idle \<or> state m = Error) \<and> proposal pf props ev m = Inr (Some p)"
  have "nav_from p \<noteq> None"
    by (rule proposal_from [OF conjunct1 [OF a] conjunct2 [OF a]])
  then show "p \<noteq> errorDetails" by (auto simp: errorDetails_def)
next
  show "(errorDetails :: 'm NavigationDetails)
       = \<lparr> nav_from = None,
           nav_to = \<lparr> pathname = [], search = [], hash = [], params = [], query = [],
                      meta = None, name = None \<rparr>,
           nav_type = TPush, nav_source = Some ''programmatic'' \<rparr>"
    by (simp add: errorDetails_def emptyLocation_def)
qed

theorem error_observer_placeholder_witness:
  "run serverPlatform blockingProps (send (navigateTo ''/admin'') (idleAt ''/'')) = Inr exBlocked
   \<and> trace exBlocked = trace (send (navigateTo ''/admin'') (idleAt ''/''))
        @ [BeforeNavigateCall (pushDetails ''/'' ''/admin''),
           NavigationErrorCall ''Navigation prevented'' errorDetails]
   \<and> state (idleAt ''/'') = Idle
   \<and> proposal serverPlatform blockingProps (navigateTo ''/admin'') (idleAt ''/'')
       = Inr (Some (pushDetails ''/'' ''/admin''))
   \<and> pushDetails ''/'' ''/admin'' \<noteq> errorDetails"
proof -
  let ?m = "send (navigateTo ''/admin'') (idleAt ''/'')"
  have r: "run serverPlatform blockingProps ?m = Inr exBlocked" by code_simp
  have st: "state (idleAt ''/'') = Idle" by (simp add: idleAt_def)
  have pr: "proposal serverPlatform blockingProps (navigateTo ''/admin'') (idleAt ''/'')
       = Inr (Some (pushDetails ''/'' ''/admin''))" by code_simp
  note T = error_observer_placeholder [of serverPlatform blockingProps]
  from T [of ?m exBlocked, THEN conjunct1, rule_format, OF r]
  obtain new where "trace exBlocked = trace ?m @ new"
    "\<forall>msg d. NavigationErrorCall msg d \<in> set new \<longrightarrow> d = errorDetails" by blast
  have t: "trace exBlocked = trace ?m
        @ [BeforeNavigateCall (pushDetails ''/'' ''/admin''),
           NavigationErrorCall ''Navigation prevented'' errorDetails]"
    by (simp add: exBlocked_def idleAt_def)
  from T [of "idleAt ''/''" _ _ "navigateTo ''/admin''" "pushDetails ''/'' ''/admin''",
      THEN conjunct2, THEN conjunct2, THEN conjunct1, rule_format] st pr
  have "pushDetails ''/'' ''/admin'' \<noteq> (errorDetails :: unit NavigationDetails)" by blast
  with r t st pr show ?thesis by blast
qed

end
